theory Spec2Isabelle
  imports Complex_Main "HOL-Library.AList"
begin

section \<open>The survival shooter of survive.py\<close>

text \<open>
  The entity simulation of \<^verbatim>\<open>survive.py\<close>: rectangles, sprites and groups as the game
  library provides them, the classes Character, Player, Enemy, BOSS and Bullet, the
  camera-synchronised group, and the frame of \<^verbatim>\<open>main\<close>.

  Python floats are modelled by exact reals. A sprite object is a record; a group is
  the list of the sprites added to it, in insertion order, and a reference to a sprite
  is its position in that list. \<^verbatim>\<open>kill()\<close> removes a sprite from every group: the
  record keeps the flag \<open>alive\<close> (the library's \<^verbatim>\<open>Sprite.alive()\<close>), and the members
  of a group are the entries of its list that are alive.
\<close>

subsection \<open>Errors\<close>

datatype py_error = ZeroDivisionError | AttributeError | KeyError

subsection \<open>Numbers and strings\<close>

text \<open>Conversion of a float to an integer (Python's \<^verbatim>\<open>int(x)\<close>, and the conversion
  the rectangle applies to every coordinate it is given): truncation toward zero.\<close>

definition trunc :: "real \<Rightarrow> int" where
  "trunc r = (if 0 \<le> r then \<lfloor>r\<rfloor> else \<lceil>r\<rceil>)"

function str_nat :: "nat \<Rightarrow> string" where
  "str_nat n =
     (if n < 10 then [''0123456789'' ! n]
      else str_nat (n div 10) @ [''0123456789'' ! (n mod 10)])"
  by pat_completeness auto
termination
  by (relation "measure id") auto

declare str_nat.simps [simp del]

text \<open>\<^verbatim>\<open>str(i)\<close> of an integer, as an f-string formats it.\<close>

definition str_int :: "int \<Rightarrow> string" where
  "str_int i = (if i < 0 then CHR ''-'' # str_nat (nat (- i)) else str_nat (nat i))"

subsection \<open>Rectangles\<close>

text \<open>A rectangle of the game library: integer position of the top-left corner and
  integer size. Indexing a rectangle as a sequence gives \<open>rect_x\<close> at 0 and \<open>rect_y\<close>
  at 1.\<close>

record Rect =
  rect_x :: int
  rect_y :: int
  rect_w :: int
  rect_h :: int

definition move_ip :: "Rect \<Rightarrow> real \<Rightarrow> real \<Rightarrow> Rect" where
  "move_ip r dx dy = r\<lparr>rect_x := rect_x r + trunc dx, rect_y := rect_y r + trunc dy\<rparr>"

definition centerx :: "Rect \<Rightarrow> int" where
  "centerx r = rect_x r + rect_w r div 2"

definition centery :: "Rect \<Rightarrow> int" where
  "centery r = rect_y r + rect_h r div 2"

definition center :: "Rect \<Rightarrow> int \<times> int" where
  "center r = (centerx r, centery r)"

definition midbottom :: "Rect \<Rightarrow> int \<times> int" where
  "midbottom r = (centerx r, rect_y r + rect_h r)"

text \<open>\<^verbatim>\<open>rect.center = (cx, cy)\<close> and \<^verbatim>\<open>rect.topleft = (x, y)\<close>: the size stays.\<close>

definition set_center :: "Rect \<Rightarrow> real \<times> real \<Rightarrow> Rect" where
  "set_center r p =
     r\<lparr>rect_x := trunc (fst p) - rect_w r div 2, rect_y := trunc (snd p) - rect_h r div 2\<rparr>"

definition set_topleft :: "Rect \<Rightarrow> real \<times> real \<Rightarrow> Rect" where
  "set_topleft r p = r\<lparr>rect_x := trunc (fst p), rect_y := trunc (snd p)\<rparr>"

text \<open>The overlap test of two rectangles (\<^verbatim>\<open>Rect.colliderect\<close>): both have a
  non-zero area and their extents intersect on both axes.\<close>

definition colliderect :: "Rect \<Rightarrow> Rect \<Rightarrow> bool" where
  "colliderect a b \<longleftrightarrow>
     rect_w a \<noteq> 0 \<and> rect_h a \<noteq> 0 \<and> rect_w b \<noteq> 0 \<and> rect_h b \<noteq> 0 \<and>
     min (rect_x a) (rect_x a + rect_w a) < max (rect_x b) (rect_x b + rect_w b) \<and>
     min (rect_y a) (rect_y a + rect_h a) < max (rect_y b) (rect_y b + rect_h b) \<and>
     max (rect_x a) (rect_x a + rect_w a) > min (rect_x b) (rect_x b + rect_w b) \<and>
     max (rect_y a) (rect_y a + rect_h a) > min (rect_y b) (rect_y b + rect_h b)"

subsection \<open>Images\<close>

text \<open>An image is the expression that built it; colours are RGB triples. The pixel
  sizes of image files, of rotated images and of rendered text come from the game
  library and the assets: the record \<open>Env\<close> supplies them.\<close>

type_synonym color = "int \<times> int \<times> int"

datatype Surface =
    Load string
  | Rotozoom Surface real real
  | Flip Surface bool bool
  | Scale Surface "int \<times> int"
  | Filled "int \<times> int" color
  | Font_render nat string color

record Env =
  file_size :: "string \<Rightarrow> int \<times> int"
  rotozoom_size :: "int \<times> int \<Rightarrow> real \<Rightarrow> real \<Rightarrow> int \<times> int"
  text_size :: "nat \<Rightarrow> string \<Rightarrow> int \<times> int"

fun get_size :: "Env \<Rightarrow> Surface \<Rightarrow> int \<times> int" where
  "get_size E (Load p) = file_size E p"
| "get_size E (Rotozoom s angle zoom) = rotozoom_size E (get_size E s) angle zoom"
| "get_size E (Flip s fx fy) = get_size E s"
| "get_size E (Scale s wh) = wh"
| "get_size E (Filled wh c) = wh"
| "get_size E (Font_render n txt c) = text_size E n txt"

definition get_rect :: "Env \<Rightarrow> Surface \<Rightarrow> Rect" where
  "get_rect E s =
     \<lparr>rect_x = 0, rect_y = 0, rect_w = fst (get_size E s), rect_h = snd (get_size E s)\<rparr>"

subsection \<open>Sprites\<close>

text \<open>What every sprite has: its rectangle, its image (an attribute that a Character
  does not have before its first update) and its membership flag.\<close>

record Sprite =
  rect :: Rect
  image :: "Surface option"
  alive :: bool

definition kill :: "'a Sprite_scheme \<Rightarrow> 'a Sprite_scheme" where
  "kill s = s\<lparr>alive := False\<rparr>"

text \<open>\<^verbatim>\<open>pg.sprite.spritecollide(sprite, group, dokill)\<close>: the members of the group
  whose rectangle overlaps the sprite's, in the group's order, as references.\<close>

definition spritecollide :: "Rect \<Rightarrow> 'a Sprite_scheme list \<Rightarrow> nat list" where
  "spritecollide r grp =
     filter (\<lambda>i. alive (grp ! i) \<and> colliderect r (rect (grp ! i))) [0..<length grp]"

subsection \<open>Character\<close>

text \<open>The classes instantiated by the game. Enemy and BOSS derive from Enemy\_Base.
  One record carries the attributes of all three; an attribute that a class does not
  have is never read for it.\<close>

datatype cls = Player | Enemy | BOSS

record Character = Sprite +
  cls :: cls
  hp :: int
  max_invincible_tick :: real
  invincible_tmr :: real
  imgs :: "(int \<times> Surface \<times> real option) list"
  speed :: real
  e_score :: int
  attack_interval_tmr :: real
  bullet_img :: Surface
  dire :: "int \<times> int"
  attack_interval :: real
  attack_number :: int

definition is_Enemy_Base :: "Character \<Rightarrow> bool" where
  "is_Enemy_Base c \<longleftrightarrow> cls c = Enemy \<or> cls c = BOSS"

definition get_score :: "Character \<Rightarrow> int" where
  "get_score c = e_score c"

text \<open>The dictionary \<open>imgs\<close> maps a priority to an image and its remaining time
  (\<open>None\<close>: no limit); it is an association list with distinct keys in insertion
  order.\<close>

definition set_image :: "Surface \<Rightarrow> int \<Rightarrow> real option \<Rightarrow> Character \<Rightarrow> Character" where
  "set_image img priority valid_time c =
     c\<lparr>imgs := AList.update priority (img, valid_time) (imgs c)\<rparr>"

definition IMAGE_SCALE :: real where
  "IMAGE_SCALE = 12 / 10"

definition change_img :: "int \<Rightarrow> int \<Rightarrow> real option \<Rightarrow> Character \<Rightarrow> Character" where
  "change_img num priority life c =
     set_image (Rotozoom (Load (''ex05/fig/'' @ str_int num @ ''.png'')) 0 IMAGE_SCALE)
       priority life c"

text \<open>The hook \<^verbatim>\<open>damaged()\<close>: Player shows image 8 at priority 5 for 2 seconds, the
  other classes do nothing.\<close>

definition damaged :: "Character \<Rightarrow> Character" where
  "damaged c = (if cls c = Player then change_img 8 5 (Some 2) c else c)"

text \<open>\<^verbatim>\<open>kill()\<close> as the class of the object defines it: Player overrides it to do
  nothing.\<close>

definition Character_kill :: "Character \<Rightarrow> Character" where
  "Character_kill c = (if cls c = Player then c else kill c)"

text \<open>\<^verbatim>\<open>give_damage\<close> returns the health after the call, which is \<open>hp\<close> of the
  result here; no caller reads it.\<close>

definition give_damage :: "int \<Rightarrow> Character \<Rightarrow> Character" where
  "give_damage damage c =
     (let c1 = (if invincible_tmr c \<le> 0
                then damaged (c\<lparr>hp := hp c - damage, invincible_tmr := max_invincible_tick c\<rparr>)
                else c)
      in if hp c1 \<le> 0 then Character_kill c1 else c1)"

text \<open>\<^verbatim>\<open>Character.update\<close>. The largest key of a dictionary that is not empty is one
  of its keys: the lookup at \<open>idx\<close> finds an entry.\<close>

definition Character_update :: "real \<Rightarrow> Character \<Rightarrow> Character" where
  "Character_update delta_time c =
     (let c1 = c\<lparr>invincible_tmr := max (invincible_tmr c - delta_time) (- 1)\<rparr>
      in if length (imgs c1) > 0 then
           (let idx = Max (set (map fst (imgs c1)))
            in case map_of (imgs c1) idx of
                 None \<Rightarrow> c1
               | Some (img, valid_time) \<Rightarrow>
                   (let c2 = c1\<lparr>image := Some img\<rparr>
                    in case valid_time of
                         None \<Rightarrow> c2
                       | Some t \<Rightarrow>
                           if t < 0 then c2\<lparr>imgs := AList.delete idx (imgs c2)\<rparr>
                           else c2\<lparr>imgs := AList.update idx (img, Some (t - delta_time)) (imgs c2)\<rparr>))
         else c1)"

text \<open>\<^verbatim>\<open>Character.__init__\<close>; the attributes of the subclasses get their values in
  the subclass constructors below.\<close>

definition Character_init ::
  "Env \<Rightarrow> cls \<Rightarrow> Surface \<Rightarrow> real \<times> real \<Rightarrow> int \<Rightarrow> real \<Rightarrow> Character" where
  "Character_init E k img position hp0 max_invincible_sec =
     set_image img 0 None
       \<lparr>rect = set_center (get_rect E img) position, image = None, alive = False,
        cls = k, hp = hp0, max_invincible_tick = max_invincible_sec, invincible_tmr = - 1,
        imgs = [], speed = 0, e_score = 0, attack_interval_tmr = 0,
        bullet_img = img, dire = (0, 0), attack_interval = 0, attack_number = 0\<rparr>"

subsection \<open>Direction and distance\<close>

definition radians :: "real \<Rightarrow> real" where
  "radians d = d * pi / 180"

definition degrees :: "real \<Rightarrow> real" where
  "degrees r = r * 180 / pi"

text \<open>\<^verbatim>\<open>math.atan2(y, x)\<close> on reals (there is no signed zero).\<close>

definition atan2 :: "real \<Rightarrow> real \<Rightarrow> real" where
  "atan2 y x =
     (if 0 < x then arctan (y / x)
      else if x < 0 \<and> 0 \<le> y then arctan (y / x) + pi
      else if x < 0 \<and> y < 0 then arctan (y / x) - pi
      else if 0 < y then pi / 2
      else if y < 0 then - pi / 2
      else 0)"

text \<open>\<^verbatim>\<open>calc_orientation\<close>: the float division raises ZeroDivisionError when the
  norm is zero.\<close>

definition calc_orientation :: "real \<times> real \<Rightarrow> real \<times> real \<Rightarrow> py_error + real \<times> real" where
  "calc_orientation org dst =
     (let x_diff = fst dst - fst org;
          y_diff = snd dst - snd org;
          norm = sqrt (x_diff ^ 2 + y_diff ^ 2)
      in if norm = 0 then Inl ZeroDivisionError else Inr (x_diff / norm, y_diff / norm))"

definition calc_norm :: "Rect \<Rightarrow> Rect \<Rightarrow> real" where
  "calc_norm org dst =
     (let x_diff = centerx dst - centerx org;
          y_diff = centery dst - centery org
      in sqrt (real_of_int (x_diff ^ 2 + y_diff ^ 2)))"

text \<open>A rectangle passed where a coordinate pair is expected is read at its indices 0
  and 1.\<close>

definition Rect_xy :: "Rect \<Rightarrow> real \<times> real" where
  "Rect_xy r = (real_of_int (rect_x r), real_of_int (rect_y r))"

definition of_pair :: "int \<times> int \<Rightarrow> real \<times> real" where
  "of_pair p = (real_of_int (fst p), real_of_int (snd p))"

subsection \<open>Player\<close>

datatype key = K_w | K_s | K_a | K_d | K_F1 | K_F2 | K_F3 | K_other

definition img0 :: Surface where
  "img0 = Rotozoom (Load ''ex05/fig/3.png'') 0 IMAGE_SCALE"

definition img :: Surface where
  "img = Flip img0 True False"

definition move_imgs :: "(int \<times> int) \<rightharpoonup> Surface" where
  "move_imgs = map_of
     [((1, 0), img),
      ((1, - 1), Rotozoom img 45 1),
      ((0, - 1), Rotozoom img 90 1),
      ((- 1, - 1), Rotozoom img0 (- 45) 1),
      ((- 1, 0), img0),
      ((- 1, 1), Rotozoom img0 45 1),
      ((0, 1), Rotozoom img (- 90) 1),
      ((1, 1), Rotozoom img (- 45) 1)]"

definition delta :: "(key \<times> int \<times> int) list" where
  "delta = [(K_w, (0, - 1)), (K_s, (0, 1)), (K_a, (- 1, 0)), (K_d, (1, 0))]"

definition Player_init :: "Env \<Rightarrow> real \<times> real \<Rightarrow> int \<Rightarrow> real \<Rightarrow> py_error + Character" where
  "Player_init E xy hp0 max_invincible_sec =
     (case move_imgs (1, 0) of
        None \<Rightarrow> Inl KeyError
      | Some im \<Rightarrow>
          Inr ((Character_init E Player im xy hp0 max_invincible_sec)
                 \<lparr>dire := (1, 0), speed := 500, attack_interval := 2 / 10, attack_number := 1\<rparr>))"

definition Player_move ::
  "(key \<Rightarrow> bool) \<Rightarrow> real \<Rightarrow> real \<Rightarrow> key \<times> int \<times> int \<Rightarrow> Rect \<times> int \<times> int \<Rightarrow> Rect \<times> int \<times> int" where
  "Player_move key_lst spd dtime kmv st =
     (let k = fst kmv; mv = snd kmv; r = fst st; sum_mv = snd st
      in if key_lst k
         then (move_ip r (spd * real_of_int (fst mv) * dtime) (spd * real_of_int (snd mv) * dtime),
               (fst sum_mv + fst mv, snd sum_mv + snd mv))
         else st)"

definition Player_update :: "(key \<Rightarrow> bool) \<Rightarrow> real \<Rightarrow> Character \<Rightarrow> py_error + Character" where
  "Player_update key_lst dtime p =
     (let p1 = Character_update dtime p;
          st = fold (Player_move key_lst (speed p1) dtime) delta (rect p1, (0, 0));
          p2 = p1\<lparr>rect := fst st\<rparr>;
          sum_mv = snd st
      in if \<not> (fst sum_mv = 0 \<and> snd sum_mv = 0)
         then (case move_imgs sum_mv of
                 None \<Rightarrow> Inl KeyError
               | Some im \<Rightarrow> Inr (set_image im 0 None (p2\<lparr>dire := sum_mv\<rparr>)))
         else Inr p2)"

subsection \<open>Bullet\<close>

text \<open>The group a bullet attacks is a reference to one of the groups of \<^verbatim>\<open>main\<close>:
  the player's bullets attack \<^verbatim>\<open>enemies\<close>, a boss's flames attack the first group
  of the player, which is \<^verbatim>\<open>player_group\<close>.\<close>

datatype group_ref = Enemies | Player_group

record Bullet = Sprite +
  vx :: real
  vy :: real
  bullet_speed :: real
  life_tmr :: real
  attackable_group :: group_ref
  damage :: int
  max_life_sec :: real

text \<open>\<^verbatim>\<open>Bullet.__init__\<close>. \<^verbatim>\<open>set_colorkey\<close> changes which pixels are transparent
  and nothing else.\<close>

definition Bullet_init ::
  "Env \<Rightarrow> Surface \<Rightarrow> real \<times> real \<Rightarrow> real \<times> real \<Rightarrow> group_ref \<Rightarrow> real \<Rightarrow> int \<Rightarrow> real \<Rightarrow> bool \<Rightarrow> Bullet" where
  "Bullet_init E im position direction grp spd dmg life_sec is_fix_rotation_img =
     (let im1 = (if \<not> is_fix_rotation_img
                 then Rotozoom im (degrees (atan2 (- snd direction) (fst direction))) 1
                 else im)
      in \<lparr>rect = set_center (get_rect E im1) position, image = Some im1, alive = False,
          vx = fst direction, vy = snd direction, bullet_speed = spd, life_tmr = 0,
          attackable_group = grp, damage = dmg, max_life_sec = life_sec\<rparr>)"

definition score_up :: "int \<Rightarrow> int \<Rightarrow> int" where
  "score_up add sc = sc + add"

text \<open>One pass of the collision loop of \<^verbatim>\<open>Bullet.update\<close>, for the target at
  reference \<open>i\<close>.\<close>

definition Bullet_hit ::
  "nat \<Rightarrow> Bullet \<times> Character list \<times> int \<Rightarrow> Bullet \<times> Character list \<times> int" where
  "Bullet_hit i st =
     (let b = fst st; targets = fst (snd st); sc = snd (snd st);
          damage_target = give_damage (damage b) (targets ! i)
      in (kill b, targets[i := damage_target],
          if hp damage_target \<le> 0 \<and> is_Enemy_Base damage_target
          then score_up (get_score damage_target) sc else sc))"

text \<open>\<^verbatim>\<open>Bullet.update(dtime, score)\<close>, given the list of the attacked group.\<close>

definition Bullet_update ::
  "real \<Rightarrow> Bullet \<Rightarrow> Character list \<times> int \<Rightarrow> Bullet \<times> Character list \<times> int" where
  "Bullet_update dtime b ts =
     (let b1 = b\<lparr>rect := move_ip (rect b) (bullet_speed b * vx b * dtime)
                                   (bullet_speed b * vy b * dtime)\<rparr>;
          b2 = (if life_tmr b1 > max_life_sec b1 then kill b1 else b1);
          b3 = b2\<lparr>life_tmr := life_tmr b2 + dtime\<rparr>
      in fold Bullet_hit (spritecollide (rect b3) (fst ts)) (b3, fst ts, snd ts))"

definition gen_beams :: "Env \<Rightarrow> Surface \<Rightarrow> Character \<Rightarrow> real \<Rightarrow> group_ref \<Rightarrow> Bullet list" where
  "gen_beams E im p target_rad grp =
     (let count = (3::nat);
          interval_rad = (if count \<noteq> 0 then radians 30 / real (count - 1) else 0);
          rad_range = (if count \<noteq> 0 then interval_rad * real (count - 1) else 0)
      in map (\<lambda>i. let rad = real i * interval_rad - rad_range / 2 + target_rad
                  in Bullet_init E im (of_pair (center (rect p))) (cos rad, sin rad) grp 500 10 5 False)
           [0..<count])"

subsection \<open>Enemy and BOSS\<close>

text \<open>The attack target of every Enemy and BOSS is the player object of \<^verbatim>\<open>main\<close>;
  the updates take it as an argument.\<close>

definition Enemy_Base_init ::
  "Env \<Rightarrow> cls \<Rightarrow> Surface \<Rightarrow> real \<times> real \<Rightarrow> int \<Rightarrow> real \<Rightarrow> int \<Rightarrow> Character" where
  "Enemy_Base_init E k im position hp0 max_invincible_sec sc =
     (Character_init E k im position hp0 max_invincible_sec)\<lparr>e_score := sc\<rparr>"

text \<open>\<^verbatim>\<open>Enemy.__init__\<close>; \<open>sizes\<close> are the three pairs drawn by \<^verbatim>\<open>random.randint\<close> and
  \<open>choice\<close> is the index drawn by \<^verbatim>\<open>random.choice\<close>.\<close>

definition Enemy_init ::
  "Env \<Rightarrow> (int \<times> int) \<times> (int \<times> int) \<times> (int \<times> int) \<Rightarrow> nat \<Rightarrow> real \<times> real \<Rightarrow> int \<Rightarrow> int \<Rightarrow> Character" where
  "Enemy_init E sizes choice spawn_point hp0 sc =
     (let im1 = Scale (Load ''ex05/fig/zonbi1.png'') (fst sizes);
          im2 = Scale (Load ''ex05/fig/zonbi2.png'') (fst (snd sizes));
          im3 = Scale (Load ''ex05/fig/zonbi3.png'') (snd (snd sizes));
          im = (if choice = 0 then im1 else if choice = 1 then im2 else im3)
      in (Enemy_Base_init E Enemy im spawn_point hp0 0 sc)\<lparr>speed := 100\<rparr>)"

definition Enemy_update :: "real \<Rightarrow> Character \<Rightarrow> Character \<Rightarrow> py_error + Character" where
  "Enemy_update dtime attack_target e =
     (let e1 = Character_update dtime e
      in if calc_norm (rect e1) (rect attack_target) < 50 then Inr e1
         else (case calc_orientation (Rect_xy (rect e1)) (Rect_xy (rect attack_target)) of
                 Inl err \<Rightarrow> Inl err
               | Inr dir \<Rightarrow>
                   Inr (e1\<lparr>rect := move_ip (rect e1) (fst dir * speed e1 * dtime)
                                                 (snd dir * speed e1 * dtime)\<rparr>)))"

definition ATTACK_INTERVAL_SEC :: real where
  "ATTACK_INTERVAL_SEC = 1"

definition BOSS_init :: "Env \<Rightarrow> real \<times> real \<Rightarrow> int \<Rightarrow> int \<Rightarrow> Character" where
  "BOSS_init E spawn_point hp0 sc =
     (Enemy_Base_init E BOSS (Rotozoom (Load ''ex05/fig/alien2.png'') 0 3) spawn_point hp0 0 sc)
       \<lparr>speed := 100, attack_interval_tmr := 0,
        bullet_img := Rotozoom (Load ''ex05/fig/flame.png'') 0 (1 / 10)\<rparr>"

text \<open>\<^verbatim>\<open>Group.add(sprite)\<close> for a sprite that is not yet a member.\<close>

definition add :: "'a Sprite_scheme \<Rightarrow> 'a Sprite_scheme list \<Rightarrow> 'a Sprite_scheme list" where
  "add s grp = grp @ [s\<lparr>alive := True\<rparr>]"

text \<open>\<^verbatim>\<open>BOSS.update\<close>, on the boss and the group its bullets are added to.\<close>

definition BOSS_update ::
  "Env \<Rightarrow> real \<Rightarrow> Character \<Rightarrow> Character \<times> Bullet list \<Rightarrow> py_error + Character \<times> Bullet list" where
  "BOSS_update E delta_time attack_target st =
     (let b1 = Character_update delta_time (fst st); enemy_bullet_group = snd st
      in if calc_norm (rect b1) (rect attack_target) < 50 then Inr (b1, enemy_bullet_group)
         else (case calc_orientation (Rect_xy (rect b1)) (Rect_xy (rect attack_target)) of
                 Inl err \<Rightarrow> Inl err
               | Inr dir \<Rightarrow>
                   (let b2 = b1\<lparr>rect := move_ip (rect b1) (fst dir * speed b1 * delta_time)
                                                      (snd dir * speed b1 * delta_time)\<rparr>
                    in if attack_interval_tmr b2 > ATTACK_INTERVAL_SEC
                       then (case calc_orientation (of_pair (midbottom (rect b2)))
                                    (of_pair (center (rect attack_target))) of
                               Inl err \<Rightarrow> Inl err
                             | Inr direction \<Rightarrow>
                                 Inr (b2\<lparr>attack_interval_tmr := 0 + delta_time\<rparr>,
                                      add (Bullet_init E (bullet_img b2) (of_pair (midbottom (rect b2)))
                                             direction Player_group 500 10 5 True)
                                        enemy_bullet_group))
                       else Inr (b2\<lparr>attack_interval_tmr := attack_interval_tmr b2 + delta_time\<rparr>,
                                 enemy_bullet_group))))"

subsection \<open>Camera and the camera-synchronised group\<close>

text \<open>The camera holds the display; only the size of the display is read from it.\<close>

record Camera =
  center_pos :: "real \<times> real"
  screen_size :: "int \<times> int"

text \<open>A drawing surface is the sequence of the blits made on it: image and
  rectangle.\<close>

type_synonym Screen = "(Surface \<times> Rect) list"

definition blit :: "Surface \<Rightarrow> Rect \<Rightarrow> Screen \<Rightarrow> Screen" where
  "blit im r surface = surface @ [(im, r)]"

text \<open>The members of a group, as references in the group's order.\<close>

definition sprites :: "'a Sprite_scheme list \<Rightarrow> nat list" where
  "sprites grp = filter (\<lambda>i. alive (grp ! i)) [0..<length grp]"

text \<open>\<^verbatim>\<open>pg.sprite.Group.draw\<close>: blits every member's image at its rectangle; a member
  without the attribute \<open>image\<close> raises. The list of rectangles it returns is read by
  no caller and is left out.\<close>

fun Group_draw :: "'a Sprite_scheme list \<Rightarrow> Screen \<Rightarrow> py_error + Screen" where
  "Group_draw [] surface = Inr surface"
| "Group_draw (s # grp) surface =
     (if alive s
      then (case image s of
              None \<Rightarrow> Inl AttributeError
            | Some im \<Rightarrow> Group_draw grp (blit im (rect s) surface))
      else Group_draw grp surface)"

definition shift_sprites :: "real \<Rightarrow> real \<Rightarrow> 'a Sprite_scheme list \<Rightarrow> 'a Sprite_scheme list" where
  "shift_sprites dx dy grp =
     map (\<lambda>sprite. if alive sprite then sprite\<lparr>rect := move_ip (rect sprite) dx dy\<rparr> else sprite) grp"

text \<open>\<^verbatim>\<open>Group_support_camera.draw\<close>. When the drawing raises, the members stay
  shifted: the exception leaves the method before the second loop.\<close>

definition draw ::
  "Camera \<Rightarrow> 'a Sprite_scheme list \<Rightarrow> Screen \<Rightarrow> py_error + 'a Sprite_scheme list \<times> Screen" where
  "draw cam grp surface =
     (let g1 = shift_sprites
                 (- fst (center_pos cam) + real_of_int (fst (screen_size cam)) / 2)
                 (- snd (center_pos cam) + real_of_int (snd (screen_size cam)) / 2) grp
      in case Group_draw g1 surface of
           Inl err \<Rightarrow> Inl err
         | Inr rst \<Rightarrow>
             Inr (shift_sprites
                    (fst (center_pos cam) - real_of_int (fst (screen_size cam)) / 2)
                    (snd (center_pos cam) - real_of_int (snd (screen_size cam)) / 2) g1,
                  rst))"

subsection \<open>Background\<close>

record Background = Sprite +
  offset :: "int \<times> int"

definition Background_init :: "Env \<Rightarrow> int \<times> int \<Rightarrow> Background" where
  "Background_init E off =
     \<lparr>rect = set_topleft (get_rect E (Load ''ex05/fig/background.png'')) (0, 0),
      image = Some (Load ''ex05/fig/background.png''), alive = False, offset = off\<rparr>"

text \<open>Python's floor division of a float by an integer.\<close>

definition floordiv :: "real \<Rightarrow> int \<Rightarrow> py_error + real" where
  "floordiv a b = (if b = 0 then Inl ZeroDivisionError else Inr (real_of_int \<lfloor>a / real_of_int b\<rfloor>))"

definition Background_offset :: "int \<Rightarrow> real \<Rightarrow> int \<Rightarrow> py_error + real" where
  "Background_offset off c extent =
     (if c \<noteq> 0
      then (case floordiv c extent of Inl err \<Rightarrow> Inl err | Inr q \<Rightarrow> Inr (real_of_int off + q))
      else Inr (real_of_int off))"

definition Background_update :: "Camera \<Rightarrow> Background \<Rightarrow> py_error + Background" where
  "Background_update cam b =
     (case Background_offset (fst (offset b)) (fst (center_pos cam)) (rect_w (rect b)) of
        Inl err \<Rightarrow> Inl err
      | Inr x_offset \<Rightarrow>
          (case Background_offset (snd (offset b)) (snd (center_pos cam)) (rect_h (rect b)) of
             Inl err \<Rightarrow> Inl err
           | Inr y_offset \<Rightarrow>
               Inr (b\<lparr>rect := set_topleft (rect b)
                                  (x_offset * real_of_int (rect_w (rect b)),
                                   y_offset * real_of_int (rect_h (rect b)))\<rparr>)))"

subsection \<open>Groups\<close>

text \<open>A loop over references whose body may raise.\<close>

fun for_each :: "nat list \<Rightarrow> (nat \<Rightarrow> 's \<Rightarrow> py_error + 's) \<Rightarrow> 's \<Rightarrow> py_error + 's" where
  "for_each [] f st = Inr st"
| "for_each (i # refs) f st = (case f i st of Inl err \<Rightarrow> Inl err | Inr st' \<Rightarrow> for_each refs f st')"

text \<open>\<^verbatim>\<open>spritecollide\<close> with \<^verbatim>\<open>dokill=True\<close> removes the members it returns.\<close>

definition kill_collided :: "Rect \<Rightarrow> 'a Sprite_scheme list \<Rightarrow> 'a Sprite_scheme list" where
  "kill_collided r grp = map (\<lambda>s. if alive s \<and> colliderect r (rect s) then kill s else s) grp"

text \<open>\<^verbatim>\<open>pg.sprite.groupcollide(groupa, groupb, dokilla, dokillb)\<close>: for every member of
  the first group in turn, the members of the second that overlap it; the dictionary it
  returns has a key for every member of the first group that overlaps one.\<close>

definition groupcollide_at ::
  "bool \<Rightarrow> bool \<Rightarrow> nat \<Rightarrow>
   'a Sprite_scheme list \<times> 'b Sprite_scheme list \<times> (nat \<times> nat list) list \<Rightarrow>
   'a Sprite_scheme list \<times> 'b Sprite_scheme list \<times> (nat \<times> nat list) list" where
  "groupcollide_at dokilla dokillb i st =
     (let groupa = fst st; groupb = fst (snd st); crashed = snd (snd st);
          collision = spritecollide (rect (groupa ! i)) groupb;
          groupb' = (if dokillb then kill_collided (rect (groupa ! i)) groupb else groupb)
      in if collision \<noteq> []
         then ((if dokilla then groupa[i := kill (groupa ! i)] else groupa), groupb',
               crashed @ [(i, collision)])
         else (groupa, groupb', crashed))"

definition groupcollide ::
  "'a Sprite_scheme list \<Rightarrow> 'b Sprite_scheme list \<Rightarrow> bool \<Rightarrow> bool \<Rightarrow>
   'a Sprite_scheme list \<times> 'b Sprite_scheme list \<times> (nat \<times> nat list) list" where
  "groupcollide groupa groupb dokilla dokillb =
     fold (groupcollide_at dokilla dokillb) (sprites groupa) (groupa, groupb, [])"

text \<open>\<^verbatim>\<open>group.update(...)\<close> calls the update of every sprite that is a member when
  the call starts; the bodies of these loops follow, one per group of \<^verbatim>\<open>main\<close>.\<close>

definition Background_update_at :: "Camera \<Rightarrow> nat \<Rightarrow> Background list \<Rightarrow> py_error + Background list" where
  "Background_update_at cam i grp =
     (case Background_update cam (grp ! i) of Inl err \<Rightarrow> Inl err | Inr b \<Rightarrow> Inr (grp[i := b]))"

definition Enemy_update_at ::
  "real \<Rightarrow> Character \<Rightarrow> nat \<Rightarrow> Character list \<Rightarrow> py_error + Character list" where
  "Enemy_update_at dtime attack_target i grp =
     (case Enemy_update dtime attack_target (grp ! i) of
        Inl err \<Rightarrow> Inl err
      | Inr e \<Rightarrow> Inr (grp[i := e]))"

definition BOSS_update_at ::
  "Env \<Rightarrow> real \<Rightarrow> Character \<Rightarrow> nat \<Rightarrow> Character list \<times> Bullet list \<Rightarrow>
   py_error + Character list \<times> Bullet list" where
  "BOSS_update_at E dtime attack_target i st =
     (case BOSS_update E dtime attack_target (fst st ! i, snd st) of
        Inl err \<Rightarrow> Inl err
      | Inr r \<Rightarrow> Inr ((fst st)[i := fst r], snd r))"

text \<open>The update of the bullet at reference \<open>i\<close> of a bullet group. The state is the
  bullet group, the player (the one member of \<^verbatim>\<open>player_group\<close>), the group
  \<^verbatim>\<open>enemies\<close> and the score. \<^verbatim>\<open>Bullet.update\<close> raises nothing.\<close>

definition Bullet_update_at ::
  "real \<Rightarrow> nat \<Rightarrow> Bullet list \<times> Character \<times> Character list \<times> int \<Rightarrow>
   Bullet list \<times> Character \<times> Character list \<times> int" where
  "Bullet_update_at dtime i st =
     (let grp = fst st; p = fst (snd st); es = fst (snd (snd st)); sc = snd (snd (snd st))
      in case attackable_group (grp ! i) of
           Enemies \<Rightarrow>
             (let r = Bullet_update dtime (grp ! i) (es, sc)
              in (grp[i := fst r], p, fst (snd r), snd (snd r)))
         | Player_group \<Rightarrow>
             (let r = Bullet_update dtime (grp ! i) ([p], sc)
              in (grp[i := fst r], fst (snd r) ! 0, es, snd (snd r))))"

text \<open>\<^verbatim>\<open>group.update(dtime, score)\<close> of a group of bullets.\<close>

definition Bullets_update ::
  "real \<Rightarrow> Bullet list \<times> Character \<times> Character list \<times> int \<Rightarrow>
   Bullet list \<times> Character \<times> Character list \<times> int" where
  "Bullets_update dtime st = fold (Bullet_update_at dtime) (sprites (fst st)) st"

subsection \<open>Score\<close>

definition WIDTH :: int where
  "WIDTH = 1600"

definition HEIGHT :: int where
  "HEIGHT = 900"

text \<open>The rectangle that \<^verbatim>\<open>Score.__init__\<close> computes, and \<^verbatim>\<open>Score.update\<close>.\<close>

definition Score_rect :: "Env \<Rightarrow> Camera \<Rightarrow> Rect" where
  "Score_rect E cam =
     set_center (get_rect E (Font_render 50 (''Score: '' @ str_int 0) (0, 0, 255)))
       (100, real_of_int (snd (screen_size cam)) - 50)"

definition Score_update :: "int \<Rightarrow> Rect \<Rightarrow> Screen \<Rightarrow> Screen" where
  "Score_update sc r surface = blit (Font_render 50 (''Score: '' @ str_int sc) (0, 0, 255)) r surface"

subsection \<open>The main loop\<close>

text \<open>The variables of \<^verbatim>\<open>main\<close>. \<open>score\<close> is the counter of the Score object and
  \<open>score_rect\<close> its rectangle; \<open>player\<close> is the one member of \<^verbatim>\<open>player_group\<close>;
  \<open>screen\<close> is the display.\<close>

record Game =
  max_fps :: int
  dtime :: real
  gameFlag :: bool
  screen :: Screen
  camera :: Camera
  background :: "Background list"
  player :: Character
  bullets :: "Bullet list"
  enemies :: "Character list"
  boss :: "Character list"
  flame :: "Bullet list"
  score :: int
  score_rect :: Rect
  clk :: real
  enemy_spawn_interval_tmr :: real
  boss_spawn_interval_tmr :: real
  suvivetime :: real

text \<open>What one frame reads from outside: the pressed keys, the event queue, the
  pointer, the values drawn from \<^verbatim>\<open>random\<close> when an enemy or a boss spawns, and the
  milliseconds returned by \<^verbatim>\<open>clock.tick\<close>.\<close>

datatype event = QUIT | KEYDOWN key | Other_event

record Input =
  key_lst :: "key \<Rightarrow> bool"
  events :: "event list"
  mouse_pos :: "int \<times> int"
  enemy_angle :: int
  enemy_sizes :: "(int \<times> int) \<times> (int \<times> int) \<times> (int \<times> int)"
  enemy_choice :: nat
  boss_angle :: int
  tick :: nat

datatype phase = Playing | GameOver | GameClear | Quit

text \<open>The event loop: \<open>None\<close> when a QUIT event makes \<^verbatim>\<open>main\<close> return, else the
  frame-rate limit. The messages printed are left out.\<close>

fun handle_events :: "event list \<Rightarrow> int \<Rightarrow> int option" where
  "handle_events [] fps = Some fps"
| "handle_events (QUIT # evs) fps = None"
| "handle_events (KEYDOWN K_F1 # evs) fps = handle_events evs 60"
| "handle_events (KEYDOWN K_F2 # evs) fps = handle_events evs 30"
| "handle_events (KEYDOWN K_F3 # evs) fps = handle_events evs 15"
| "handle_events (ev # evs) fps = handle_events evs fps"

definition difficulty :: "Game \<Rightarrow> Game" where
  "difficulty g =
     (if score g \<ge> 500 \<and> score g < 1500
      then g\<lparr>player := (player g)\<lparr>attack_interval := 1 / 10\<rparr>\<rparr>
      else if score g \<ge> 1500
      then g\<lparr>player := (player g)\<lparr>attack_interval := 1 / 10, attack_number := 3\<rparr>\<rparr>
      else g)"

definition spawn_point :: "Camera \<Rightarrow> int \<Rightarrow> real \<times> real" where
  "spawn_point cam angle =
     (let spawn_dir = (cos (radians (real_of_int angle)), - sin (radians (real_of_int angle)))
      in (fst (center_pos cam) + fst spawn_dir * 1000, snd (center_pos cam) + snd spawn_dir * 1000))"

definition spawn_enemy :: "Env \<Rightarrow> Input \<Rightarrow> Game \<Rightarrow> Game" where
  "spawn_enemy E inp g =
     (let g1 = (if enemy_spawn_interval_tmr g > 5 / 10
                then g\<lparr>enemies := add (Enemy_init E (enemy_sizes inp) (enemy_choice inp)
                                          (spawn_point (camera g) (enemy_angle inp)) 20 30)
                                     (enemies g),
                       enemy_spawn_interval_tmr := 0\<rparr>
                else g)
      in g1\<lparr>enemy_spawn_interval_tmr := enemy_spawn_interval_tmr g1 + dtime g1\<rparr>)"

definition spawn_boss :: "Env \<Rightarrow> Input \<Rightarrow> Game \<Rightarrow> Game" where
  "spawn_boss E inp g =
     (let g1 = (if boss_spawn_interval_tmr g > 3
                then g\<lparr>boss := add (BOSS_init E (spawn_point (camera g) (boss_angle inp)) 50 40)
                                  (boss g),
                       boss_spawn_interval_tmr := 0\<rparr>
                else g)
      in g1\<lparr>boss_spawn_interval_tmr := boss_spawn_interval_tmr g1 + dtime g1\<rparr>)"

text \<open>The three collision passes of \<^verbatim>\<open>main\<close>.\<close>

definition collide_flame_bullets :: "Game \<Rightarrow> Game" where
  "collide_flame_bullets g =
     (let r = groupcollide (flame g) (bullets g) True True
      in g\<lparr>flame := fst r, bullets := fst (snd r)\<rparr>)"

definition collide_player_enemies :: "Game \<Rightarrow> Game" where
  "collide_player_enemies g =
     g\<lparr>player := fold (\<lambda>_ p. give_damage 10 p)
                    (spritecollide (rect (player g)) (enemies g)) (player g)\<rparr>"

definition boss_hit :: "nat \<Rightarrow> Character list \<times> int \<Rightarrow> Character list \<times> int" where
  "boss_hit i st =
     (let b = give_damage 10 (fst st ! i)
      in ((fst st)[i := b], if hp b \<le> 0 then score_up 40 (snd st) else snd st))"

definition collide_boss_bullets :: "Game \<Rightarrow> Game" where
  "collide_boss_bullets g =
     (let r = groupcollide (boss g) (bullets g) False True;
          st = fold boss_hit (map fst (snd (snd r))) (fst r, score g)
      in g\<lparr>boss := fst st, bullets := fst (snd r), score := snd st\<rparr>)"

text \<open>\<^verbatim>\<open>background.update()\<close> and \<^verbatim>\<open>background.draw(screen)\<close>.\<close>

definition draw_background :: "Game \<Rightarrow> py_error + Game" where
  "draw_background g =
     (case for_each (sprites (background g)) (Background_update_at (camera g)) (background g) of
        Inl err \<Rightarrow> Inl err
      | Inr grp \<Rightarrow>
          (case draw (camera g) grp (screen g) of
             Inl err \<Rightarrow> Inl err
           | Inr r \<Rightarrow> Inr (g\<lparr>background := fst r, screen := snd r\<rparr>)))"

text \<open>A text rendered with the font of size 250 and blitted with its centre at \<open>c\<close>.\<close>

definition overlay :: "Env \<Rightarrow> string \<Rightarrow> color \<Rightarrow> real \<times> real \<Rightarrow> Screen \<Rightarrow> Screen" where
  "overlay E txt col c surface =
     (let bullet_img = Font_render 250 txt col
      in blit bullet_img (set_center (get_rect E bullet_img) c) surface)"

text \<open>The body that the game-over branch and the game-clear branch share: the overlay,
  the player's image \<open>num\<close> at priority 10, one update of the player, and the drawing of
  \<^verbatim>\<open>player_group\<close>. The display refresh and the two seconds of sleep that follow have
  no effect on the variables.\<close>

definition ending :: "Env \<Rightarrow> Input \<Rightarrow> string \<Rightarrow> color \<Rightarrow> int \<Rightarrow> Game \<Rightarrow> py_error + Game" where
  "ending E inp txt col num g =
     (let g1 = g\<lparr>screen := overlay E txt col (real_of_int WIDTH / 2, real_of_int HEIGHT / 2) (screen g)\<rparr>;
          p = change_img num 10 (Some 250) (player g1)
      in case Player_update (key_lst inp) (dtime g1) p of
           Inl err \<Rightarrow> Inl err
         | Inr p' \<Rightarrow>
             (case draw (camera g1) [p'] (screen g1) of
                Inl err \<Rightarrow> Inl err
              | Inr r \<Rightarrow> Inr (g1\<lparr>player := fst r ! 0, screen := snd r\<rparr>)))"

definition show_timer :: "Env \<Rightarrow> Game \<Rightarrow> Game" where
  "show_timer E g =
     g\<lparr>screen := overlay E (str_int (trunc (60 - suvivetime g))) (0, 255, 0)
                    (real_of_int WIDTH / 2, 100) (screen g)\<rparr>"

text \<open>The player's update and the camera that follows the player.\<close>

definition player_step :: "Input \<Rightarrow> Game \<Rightarrow> py_error + Game" where
  "player_step inp g =
     (case Player_update (key_lst inp) (dtime g) (player g) of
        Inl err \<Rightarrow> Inl err
      | Inr p \<Rightarrow>
          Inr (g\<lparr>player := p,
                 camera := (camera g)\<lparr>center_pos := of_pair (center (rect p))\<rparr>\<rparr>))"

text \<open>The player's attack, aimed at the pointer.\<close>

definition shoot :: "Env \<Rightarrow> Input \<Rightarrow> Game \<Rightarrow> py_error + Game" where
  "shoot E inp g =
     (if clk g > attack_interval (player g)
      then
        (let g1 = g\<lparr>clk := 0\<rparr>;
             mouse = (real_of_int (fst (mouse_pos inp)) - real_of_int (fst (screen_size (camera g1))) / 2,
                      real_of_int (snd (mouse_pos inp)) - real_of_int (snd (screen_size (camera g1))) / 2)
         in case calc_orientation (of_pair (center (rect (player g1))))
                   (fst mouse + fst (center_pos (camera g1)), snd mouse + snd (center_pos (camera g1))) of
              Inl err \<Rightarrow> Inl err
            | Inr direction \<Rightarrow>
                (let bullet_img = Filled (20, 10) (255, 0, 0)
                 in if attack_number (player g1) = 3
                    then Inr (g1\<lparr>bullets :=
                                  fold add (gen_beams E bullet_img (player g1)
                                              (atan2 (snd direction) (fst direction)) Enemies)
                                    (bullets g1)\<rparr>)
                    else Inr (g1\<lparr>bullets :=
                                  add (Bullet_init E bullet_img (of_pair (center (rect (player g1))))
                                         direction Enemies 1000 10 5 False)
                                    (bullets g1)\<rparr>)))
      else Inr g)"

text \<open>The updates of the four groups, in the order of \<^verbatim>\<open>main\<close>.\<close>

definition update_enemies :: "Game \<Rightarrow> py_error + Game" where
  "update_enemies g =
     (case for_each (sprites (enemies g)) (Enemy_update_at (dtime g) (player g)) (enemies g) of
        Inl err \<Rightarrow> Inl err
      | Inr grp \<Rightarrow> Inr (g\<lparr>enemies := grp\<rparr>))"

definition update_boss :: "Env \<Rightarrow> Game \<Rightarrow> py_error + Game" where
  "update_boss E g =
     (case for_each (sprites (boss g)) (BOSS_update_at E (dtime g) (player g)) (boss g, flame g) of
        Inl err \<Rightarrow> Inl err
      | Inr st \<Rightarrow> Inr (g\<lparr>boss := fst st, flame := snd st\<rparr>))"

definition update_bullets :: "Game \<Rightarrow> Game" where
  "update_bullets g =
     (let st = Bullets_update (dtime g) (bullets g, player g, enemies g, score g)
      in g\<lparr>bullets := fst st, player := fst (snd st), enemies := fst (snd (snd st)),
           score := snd (snd (snd st))\<rparr>)"

definition update_flame :: "Game \<Rightarrow> Game" where
  "update_flame g =
     (let st = Bullets_update (dtime g) (flame g, player g, enemies g, score g)
      in g\<lparr>flame := fst st, player := fst (snd st), enemies := fst (snd (snd st)),
           score := snd (snd (snd st))\<rparr>)"

text \<open>The drawing passes at the end of a frame.\<close>

definition draw_player :: "Game \<Rightarrow> py_error + Game" where
  "draw_player g =
     (case draw (camera g) [player g] (screen g) of
        Inl err \<Rightarrow> Inl err
      | Inr r \<Rightarrow> Inr (g\<lparr>player := fst r ! 0, screen := snd r\<rparr>))"

definition draw_bullets :: "Game \<Rightarrow> py_error + Game" where
  "draw_bullets g =
     (case draw (camera g) (bullets g) (screen g) of
        Inl err \<Rightarrow> Inl err
      | Inr r \<Rightarrow> Inr (g\<lparr>bullets := fst r, screen := snd r\<rparr>))"

definition draw_enemies :: "Game \<Rightarrow> py_error + Game" where
  "draw_enemies g =
     (case draw (camera g) (enemies g) (screen g) of
        Inl err \<Rightarrow> Inl err
      | Inr r \<Rightarrow> Inr (g\<lparr>enemies := fst r, screen := snd r\<rparr>))"

definition draw_boss :: "Game \<Rightarrow> py_error + Game" where
  "draw_boss g =
     (case draw (camera g) (boss g) (screen g) of
        Inl err \<Rightarrow> Inl err
      | Inr r \<Rightarrow> Inr (g\<lparr>boss := fst r, screen := snd r\<rparr>))"

definition draw_flame :: "Game \<Rightarrow> py_error + Game" where
  "draw_flame g =
     (case draw (camera g) (flame g) (screen g) of
        Inl err \<Rightarrow> Inl err
      | Inr r \<Rightarrow> Inr (g\<lparr>flame := fst r, screen := snd r\<rparr>))"

definition draw_score :: "Game \<Rightarrow> Game" where
  "draw_score g = g\<lparr>screen := Score_update (score g) (score_rect g) (screen g)\<rparr>"

definition end_of_frame :: "Input \<Rightarrow> Game \<Rightarrow> Game" where
  "end_of_frame inp g =
     g\<lparr>suvivetime := suvivetime g + dtime g, clk := clk g + dtime g,
       dtime := real (tick inp) / 1000\<rparr>"

text \<open>Sequencing of steps that may raise.\<close>

definition bind :: "py_error + 'a \<Rightarrow> ('a \<Rightarrow> py_error + 'b) \<Rightarrow> py_error + 'b" where
  "bind m f = (case m of Inl err \<Rightarrow> Inl err | Inr v \<Rightarrow> f v)"

text \<open>The part of a frame that is reached while the game goes on: from the player's
  update to the end of the loop body.\<close>

definition play :: "Env \<Rightarrow> Input \<Rightarrow> Game \<Rightarrow> py_error + Game" where
  "play E inp g =
     bind (player_step inp g) (\<lambda>g.
     bind (shoot E inp g) (\<lambda>g.
     bind (update_enemies g) (\<lambda>g.
     bind (update_boss E g) (\<lambda>g.
     bind (draw_player (update_flame (update_bullets g))) (\<lambda>g.
     bind (draw_bullets g) (\<lambda>g.
     bind (draw_enemies g) (\<lambda>g.
     bind (draw_boss g) (\<lambda>g.
     bind (draw_flame g) (\<lambda>g.
     Inr (end_of_frame inp (draw_score g)))))))))))"

text \<open>The part of a frame before the game-over check: events apart, everything from
  the difficulty check to the drawing of the background.\<close>

definition prelude :: "Env \<Rightarrow> Input \<Rightarrow> Game \<Rightarrow> py_error + Game" where
  "prelude E inp g =
     draw_background
       (collide_boss_bullets (collide_player_enemies (collide_flame_bullets
          (spawn_boss E inp (spawn_enemy E inp (difficulty g))))))"

text \<open>One pass through the body of \<^verbatim>\<open>while True\<close>: the phase in which it ends and
  the variables then. The sound played in every frame and the refresh of the display
  change no variable and are left out.\<close>

definition frame :: "Env \<Rightarrow> Input \<Rightarrow> Game \<Rightarrow> py_error + phase \<times> Game" where
  "frame E inp g0 =
     (case handle_events (events inp) (max_fps g0) of
        None \<Rightarrow> Inr (Quit, g0)
      | Some fps \<Rightarrow>
          bind (prelude E inp (g0\<lparr>max_fps := fps\<rparr>)) (\<lambda>g.
            if hp (player g) \<le> 0
            then bind (ending E inp ''Game Over'' (255, 0, 0) 8 g) (\<lambda>g. Inr (GameOver, g))
            else
              (let g1 = (if trunc (suvivetime g) \<ge> 60 then g\<lparr>gameFlag := True\<rparr> else g);
                   g2 = show_timer E g1
               in if gameFlag g2 = True
                  then bind (ending E inp ''Game Clear'' (0, 255, 0) 9 g2) (\<lambda>g. Inr (GameClear, g))
                  else bind (play E inp g2) (\<lambda>g. Inr (Playing, g)))))"

text \<open>The loop of \<^verbatim>\<open>main\<close> over the inputs of successive frames; it stops at the
  first frame that does not end in \<open>Playing\<close>.\<close>

fun main_loop :: "Env \<Rightarrow> Input list \<Rightarrow> Game \<Rightarrow> py_error + phase \<times> Game" where
  "main_loop E [] g = Inr (Playing, g)"
| "main_loop E (inp # inps) g =
     (case frame E inp g of
        Inl err \<Rightarrow> Inl err
      | Inr r \<Rightarrow> (if fst r = Playing then main_loop E inps (snd r) else Inr r))"

text \<open>The variables of \<^verbatim>\<open>main\<close> when the loop is entered.\<close>

definition init :: "Env \<Rightarrow> py_error + Game" where
  "init E =
     (let cam = \<lparr>center_pos = (0, 0), screen_size = (1600, 900)\<rparr>
      in case Player_init E (0, 0) 50 2 of
           Inl err \<Rightarrow> Inl err
         | Inr p \<Rightarrow>
             Inr \<lparr>max_fps = 60, dtime = 0, gameFlag = False, screen = [], camera = cam,
                  background =
                    fold add (concat (map (\<lambda>i. map (\<lambda>j. Background_init E (i, j)) [- 1..1]) [- 2..2])) [],
                  player = p\<lparr>alive := True\<rparr>, bullets = [], enemies = [], boss = [], flame = [],
                  score = 0, score_rect = Score_rect E cam, clk = 0,
                  enemy_spawn_interval_tmr = 0, boss_spawn_interval_tmr = 0, suvivetime = 0\<rparr>)"

subsection \<open>Example values\<close>

text \<open>An environment in which every image file is 48 by 48 pixels, a rotation keeps
  the size and every text is 100 by 40 pixels; and the player that \<^verbatim>\<open>main\<close> creates
  in it.\<close>

definition env0 :: Env where
  "env0 = \<lparr>file_size = (\<lambda>p. (48, 48)), rotozoom_size = (\<lambda>wh angle zoom. wh),
            text_size = (\<lambda>n txt. (100, 40))\<rparr>"

definition player0 :: Character where
  "player0 = (case Player_init env0 (0, 0) 50 2 of Inr p \<Rightarrow> p\<lparr>alive := True\<rparr>)"

text \<open>The player after a hit (image 8 at priority 5 for two seconds) that then gets
  image 9 at priority 10 for 250 seconds; and the player whose image 8 has run out.\<close>

definition hurt0 :: Character where
  "hurt0 = change_img 9 10 (Some 250) (change_img 8 5 (Some 2) player0)"

definition expired0 :: Character where
  "expired0 = change_img 8 5 (Some (- 1 / 10)) player0"

text \<open>A bullet as the player fires it from the origin to the right (speed 500,
  damage 10, five seconds of life), the same bullet at age 5.1 seconds, and two enemies
  of 100 by 100 pixels in its way, with 20 and with 10 points of health.\<close>

definition bullet0 :: Bullet where
  "bullet0 = (Bullet_init env0 (Filled (20, 10) (255, 0, 0)) (0, 0) (1, 0) Enemies 500 10 5 False)
     \<lparr>alive := True\<rparr>"

definition expired_bullet0 :: Bullet where
  "expired_bullet0 = bullet0\<lparr>life_tmr := 51 / 10\<rparr>"

definition enemy0 :: Character where
  "enemy0 = (Enemy_init env0 ((100, 100), (100, 100), (100, 100)) 0 (60, 0) 20 30)\<lparr>alive := True\<rparr>"

definition enemy1 :: Character where
  "enemy1 = (Enemy_init env0 ((100, 100), (100, 100), (100, 100)) 1 (80, 0) 10 30)\<lparr>alive := True\<rparr>"

text \<open>A camera half a pixel off the grid, and a boss 30 pixels from the player whose
  attack timer is past the attack interval.\<close>

definition camera0 :: Camera where
  "camera0 = \<lparr>center_pos = (7 / 2, 0), screen_size = (1600, 900)\<rparr>"

definition boss0 :: Character where
  "boss0 = (BOSS_init env0 (30, 0) 50 40)\<lparr>alive := True, attack_interval_tmr := 3 / 2\<rparr>"

text \<open>The input of a frame without pressed keys and events, the pointer at the right
  edge of the window, 100 milliseconds long; and the same with the pointer at the centre
  of the window and 300 milliseconds.\<close>

definition inp0 :: Input where
  "inp0 = \<lparr>key_lst = (\<lambda>k. False), events = [], mouse_pos = (1600, 450), enemy_angle = 0,
     enemy_sizes = ((48, 48), (48, 48), (48, 48)), enemy_choice = 0, boss_angle = 0, tick = 100\<rparr>"

definition aim0 :: Input where
  "aim0 = inp0\<lparr>mouse_pos := (800, 450), tick := 300\<rparr>"

text \<open>The game when the loop is entered; that game with the player's health at zero;
  with sixty seconds survived; and with the bullet \<open>bullet0\<close> on its way to an enemy of
  ten points of health, 80 pixels to the right of the player.\<close>

definition game0 :: Game where
  "game0 = (case init env0 of Inr g \<Rightarrow> g)"



definition enemy2 :: Character where
  "enemy2 = (Enemy_init env0 ((48, 48), (48, 48), (48, 48)) 0 (80, 0) 10 30)\<lparr>alive := True\<rparr>"

definition duel0 :: Game where
  "duel0 = game0\<lparr>dtime := 1 / 10, bullets := [bullet0], enemies := [enemy2], suvivetime := 12\<rparr>"

text \<open>An enemy of 150 by 150 pixels whose top-left corner is the player's.\<close>

definition big_enemy0 :: Character where
  "big_enemy0 = (Enemy_init env0 ((150, 150), (150, 150), (150, 150)) 0 (51, 51) 20 30)
     \<lparr>alive := True\<rparr>"

subsection \<open>Notions used in the statements\<close>

text \<open>What the collision loop of \<^verbatim>\<open>Bullet.update\<close> adds to the score for a target,
  given the target after the hit; and the rectangle of a bullet after the move of its
  update.\<close>

definition award :: "Character \<Rightarrow> int" where
  "award t = (if hp t \<le> 0 \<and> is_Enemy_Base t then get_score t else 0)"

definition Bullet_moved :: "real \<Rightarrow> Bullet \<Rightarrow> Rect" where
  "Bullet_moved dt b = move_ip (rect b) (bullet_speed b * vx b * dt) (bullet_speed b * vy b * dt)"

text \<open>The score value that a dead entity stands for, the value of the dead of a group,
  and the value of all the dead enemies and bosses of a game.\<close>

definition kill_value :: "Character \<Rightarrow> int" where
  "kill_value t = (if hp t \<le> 0 then get_score t else 0)"

definition dead_value :: "Character list \<Rightarrow> int" where
  "dead_value ts = (\<Sum>t\<leftarrow>ts. kill_value t)"

definition killed_value :: "Game \<Rightarrow> int" where
  "killed_value g = dead_value (enemies g) + dead_value (boss g)"

text \<open>An entity of a scoring group as \<^verbatim>\<open>main\<close> keeps it: an Enemy or BOSS with the
  score value \<open>v\<close> that is out of its groups once its health is at or below zero. The
  invariant of the game: the enemies are such with value 30, the bosses with value 40,
  and the player is no Enemy\_Base.\<close>

definition sound_target :: "int \<Rightarrow> Character \<Rightarrow> bool" where
  "sound_target v t \<longleftrightarrow> is_Enemy_Base t \<and> get_score t = v \<and> (alive t \<longrightarrow> 0 < hp t)"

definition scoring_inv :: "Game \<Rightarrow> bool" where
  "scoring_inv g \<longleftrightarrow>
     list_all (sound_target 30) (enemies g) \<and> list_all (sound_target 40) (boss g) \<and>
     \<not> is_Enemy_Base (player g)"

text \<open>The ledger of a group and the score: the entities are sound, the score minus
  the value of the dead is \<open>c\<close>, and the score is at least \<open>lo\<close>.\<close>

definition ledger :: "int \<Rightarrow> int \<Rightarrow> int \<Rightarrow> Character list \<Rightarrow> int \<Rightarrow> bool" where
  "ledger v c lo ts sc \<longleftrightarrow> list_all (sound_target v) ts \<and> sc - dead_value ts = c \<and> lo \<le> sc"

text \<open>The books of a game: the invariant holds, the score minus the value of the dead
  enemies and bosses is \<open>c\<close>, and the score is at least \<open>lo\<close>. A group is settled when
  its entities are sound and the value of its dead is \<open>d\<close>.\<close>

definition books :: "int \<Rightarrow> int \<Rightarrow> Game \<Rightarrow> bool" where
  "books c lo g \<longleftrightarrow> scoring_inv g \<and> score g - killed_value g = c \<and> lo \<le> score g"

definition settled :: "int \<Rightarrow> int \<Rightarrow> Character list \<Rightarrow> bool" where
  "settled v d ts \<longleftrightarrow> list_all (sound_target v) ts \<and> dead_value ts = d"


section \<open>Properties\<close>

subsection \<open>Damage and invincibility\<close>

lemma hp_Character_update: "hp (Character_update dt c) = hp c"
  by (simp add: Character_update_def Let_def split: option.splits prod.splits)

lemma invincible_tmr_Character_update:
  "invincible_tmr (Character_update dt c) = max (invincible_tmr c - dt) (- 1)"
  by (simp add: Character_update_def Let_def split: option.splits prod.splits)

lemma max_invincible_tick_Character_update:
  "max_invincible_tick (Character_update dt c) = max_invincible_tick c"
  by (simp add: Character_update_def Let_def split: option.splits prod.splits)

lemma fold_Character_update_hp: "hp (fold Character_update dts c) = hp c"
  by (induction dts arbitrary: c) (simp_all add: hp_Character_update)

lemma fold_Character_update_tmr:
  "\<forall>dt\<in>set dts. 0 \<le> dt \<Longrightarrow> sum_list dts < invincible_tmr c \<Longrightarrow>
   invincible_tmr (fold Character_update dts c) = invincible_tmr c - sum_list dts"
proof (induction dts arbitrary: c)
  case Nil
  then show ?case by simp
next
  case (Cons dt dts)
  have nonneg: "0 \<le> sum_list dts"
    using Cons.prems(1) by (simp add: sum_list_nonneg)
  have step: "invincible_tmr (Character_update dt c) = invincible_tmr c - dt"
    using Cons.prems nonneg by (simp add: invincible_tmr_Character_update)
  have "invincible_tmr (fold Character_update dts (Character_update dt c)) =
        invincible_tmr (Character_update dt c) - sum_list dts"
    using Cons.prems step by (intro Cons.IH) simp_all
  then show ?case using step by simp
qed

lemma hp_damaged: "hp (damaged c) = hp c"
  by (simp add: damaged_def change_img_def set_image_def)

lemma invincible_tmr_damaged: "invincible_tmr (damaged c) = invincible_tmr c"
  by (simp add: damaged_def change_img_def set_image_def)

lemma hp_Character_kill: "hp (Character_kill c) = hp c"
  by (simp add: Character_kill_def kill_def)

lemma invincible_tmr_Character_kill: "invincible_tmr (Character_kill c) = invincible_tmr c"
  by (simp add: Character_kill_def kill_def)

lemma hp_give_damage:
  "hp (give_damage d c) = (if invincible_tmr c \<le> 0 then hp c - d else hp c)"
  by (simp add: give_damage_def Let_def hp_damaged hp_Character_kill)

lemma invincible_tmr_give_damage:
  "invincible_tmr (give_damage d c) =
     (if invincible_tmr c \<le> 0 then max_invincible_tick c else invincible_tmr c)"
  by (simp add: give_damage_def Let_def invincible_tmr_damaged invincible_tmr_Character_kill)

lemma player0_eq:
  "player0 = (Character_init env0 Player img (0, 0) 50 2)
     \<lparr>dire := (1, 0), speed := 500, attack_interval := 2 / 10, attack_number := 1, alive := True\<rparr>"
  by (simp add: player0_def Player_init_def move_imgs_def)

lemma player0_health:
  "hp player0 = 50 \<and> invincible_tmr player0 = - 1 \<and> max_invincible_tick player0 = 2"
  by (simp add: player0_eq Character_init_def set_image_def)

text \<open>
  C4. \<^verbatim>\<open>give_damage\<close> called while the invincibility timer is positive leaves the
  health unchanged; otherwise it subtracts the amount from the health and sets the timer
  to the maximum invincible duration of the entity. Hence a second damage application
  that follows the first within one invincibility window (after ticks of non-negative
  length that add up to less than the maximum invincible duration) changes nothing: the
  health has dropped exactly once.
\<close>

theorem give_damage_window:
  "(0 < invincible_tmr c \<longrightarrow> hp (give_damage d c) = hp c) \<and>
   (invincible_tmr c \<le> 0 \<longrightarrow>
      hp (give_damage d c) = hp c - d \<and>
      invincible_tmr (give_damage d c) = max_invincible_tick c) \<and>
   (invincible_tmr c \<le> 0 \<and> (\<forall>dt\<in>set dts. 0 \<le> dt) \<and> sum_list dts < max_invincible_tick c \<longrightarrow>
      hp (give_damage d2 (fold Character_update dts (give_damage d c))) = hp c - d)"
proof (intro conjI impI)
  assume "0 < invincible_tmr c"
  then show "hp (give_damage d c) = hp c" by (simp add: hp_give_damage)
next
  assume "invincible_tmr c \<le> 0"
  then show "hp (give_damage d c) = hp c - d" by (simp add: hp_give_damage)
next
  assume "invincible_tmr c \<le> 0"
  then show "invincible_tmr (give_damage d c) = max_invincible_tick c"
    by (simp add: invincible_tmr_give_damage)
next
  assume a: "invincible_tmr c \<le> 0 \<and> (\<forall>dt\<in>set dts. 0 \<le> dt) \<and> sum_list dts < max_invincible_tick c"
  let ?c1 = "give_damage d c"
  have t1: "invincible_tmr ?c1 = max_invincible_tick c"
    using a by (simp add: invincible_tmr_give_damage)
  have "invincible_tmr (fold Character_update dts ?c1) = invincible_tmr ?c1 - sum_list dts"
    using a t1 by (intro fold_Character_update_tmr) simp_all
  then have "0 < invincible_tmr (fold Character_update dts ?c1)"
    using a t1 by simp
  then have "hp (give_damage d2 (fold Character_update dts ?c1)) = hp (fold Character_update dts ?c1)"
    by (simp add: hp_give_damage)
  then show "hp (give_damage d2 (fold Character_update dts (give_damage d c))) = hp c - d"
    using a by (simp add: fold_Character_update_hp hp_give_damage)
qed

text \<open>The scenario of the player: health 50, two seconds of invincibility, damage 10
  twice with ticks of 0.5 and 1 second in between.\<close>

theorem give_damage_window_witness:
  "hp (give_damage 10 player0) = 40 \<and>
   hp (give_damage 10 (fold Character_update [1 / 2, 1] (give_damage 10 player0))) = 40"
  using give_damage_window [of player0 10 "[1 / 2, 1]" 10] player0_health
  by simp

subsection \<open>The tick of a Character\<close>


lemma Character_update_top:
  "imgs c \<noteq> [] \<Longrightarrow> map_of (imgs c) (Max (set (map fst (imgs c)))) = Some (im, vt) \<Longrightarrow>
   Character_update dt c =
     (case vt of
        None \<Rightarrow> c\<lparr>invincible_tmr := max (invincible_tmr c - dt) (- 1), image := Some im\<rparr>
      | Some t \<Rightarrow>
          if t < 0
          then c\<lparr>invincible_tmr := max (invincible_tmr c - dt) (- 1), image := Some im,
                 imgs := AList.delete (Max (set (map fst (imgs c)))) (imgs c)\<rparr>
          else c\<lparr>invincible_tmr := max (invincible_tmr c - dt) (- 1), image := Some im,
                 imgs := AList.update (Max (set (map fst (imgs c)))) (im, Some (t - dt)) (imgs c)\<rparr>)"
  by (simp add: Character_update_def Let_def split: option.splits)

lemma imgs_player0: "imgs player0 = [(0, img, None)]"
  by (simp add: player0_eq Character_init_def set_image_def)

lemma imgs_hurt0:
  "imgs hurt0 = [(0, img, None),
     (5, Rotozoom (Load (''ex05/fig/'' @ str_int 8 @ ''.png'')) 0 IMAGE_SCALE, Some 2),
     (10, Rotozoom (Load (''ex05/fig/'' @ str_int 9 @ ''.png'')) 0 IMAGE_SCALE, Some 250)]"
  by (simp add: hurt0_def change_img_def set_image_def imgs_player0)

lemma imgs_expired0:
  "imgs expired0 = [(0, img, None),
     (5, Rotozoom (Load (''ex05/fig/'' @ str_int 8 @ ''.png'')) 0 IMAGE_SCALE, Some (- 1 / 10))]"
  by (simp add: expired0_def change_img_def set_image_def imgs_player0)

text \<open>
  C2, as the claim states it, fails. With the layers 0 (no limit), 5 (two seconds left)
  and 10 (250 seconds left), a tick of half a second leaves layer 5 at two seconds: a
  finite layer that is not the highest one is not decremented. With the layers 0 and 5,
  layer 5 run out, the tick evicts layer 5 and leaves its image as the displayed one,
  which is not the image of the highest remaining layer.
\<close>

theorem Character_update_layers_counterexample:
  "map_of (imgs hurt0) 5 =
     Some (Rotozoom (Load (''ex05/fig/'' @ str_int 8 @ ''.png'')) 0 IMAGE_SCALE, Some 2) \<and>
   map_of (imgs (Character_update (1 / 2) hurt0)) 5 =
     Some (Rotozoom (Load (''ex05/fig/'' @ str_int 8 @ ''.png'')) 0 IMAGE_SCALE, Some 2) \<and>
   imgs (Character_update (1 / 2) expired0) = [(0, img, None)] \<and>
   image (Character_update (1 / 2) expired0) =
     Some (Rotozoom (Load (''ex05/fig/'' @ str_int 8 @ ''.png'')) 0 IMAGE_SCALE) \<and>
   Rotozoom (Load (''ex05/fig/'' @ str_int 8 @ ''.png'')) 0 IMAGE_SCALE \<noteq> img"
  by (simp add: Character_update_def imgs_hurt0 imgs_expired0 img_def)

text \<open>
  C2, amended. A tick sets the invincibility timer to the larger of timer minus \<open>dt\<close>
  and \<open>-1\<close>, so it never drops below \<open>-1\<close>. Of the image layers it touches only the
  one with the highest priority key: the image of that layer becomes the displayed
  image; when the layer has a remaining duration that is already negative the layer is
  evicted (its image stays displayed until the next tick), otherwise a finite remaining
  duration is decremented by \<open>dt\<close>. Every other layer keeps its image and its
  duration. Without any layer the tick changes neither the layers nor the image.
\<close>

theorem Character_update_layers:
  "invincible_tmr (Character_update dt c) = max (invincible_tmr c - dt) (- 1) \<and>
   - 1 \<le> invincible_tmr (Character_update dt c) \<and>
   (imgs c = [] \<longrightarrow> imgs (Character_update dt c) = [] \<and> image (Character_update dt c) = image c) \<and>
   (imgs c \<noteq> [] \<and> map_of (imgs c) (Max (set (map fst (imgs c)))) = Some (im, vt) \<longrightarrow>
      image (Character_update dt c) = Some im \<and>
      map_of (imgs (Character_update dt c)) (Max (set (map fst (imgs c)))) =
        (case vt of
           None \<Rightarrow> Some (im, None)
         | Some t \<Rightarrow> if t < 0 then None else Some (im, Some (t - dt))) \<and>
      (\<forall>k. k \<noteq> Max (set (map fst (imgs c))) \<longrightarrow>
         map_of (imgs (Character_update dt c)) k = map_of (imgs c) k))"
proof (intro conjI impI)
  show "invincible_tmr (Character_update dt c) = max (invincible_tmr c - dt) (- 1)"
    by (rule invincible_tmr_Character_update)
  then show "- 1 \<le> invincible_tmr (Character_update dt c)" by simp
next
  assume "imgs c = []"
  then show "imgs (Character_update dt c) = []" by (simp add: Character_update_def)
next
  assume "imgs c = []"
  then show "image (Character_update dt c) = image c" by (simp add: Character_update_def)
next
  assume a: "imgs c \<noteq> [] \<and> map_of (imgs c) (Max (set (map fst (imgs c)))) = Some (im, vt)"
  show "image (Character_update dt c) = Some im"
    using a by (simp add: Character_update_top split: option.splits)
next
  assume a: "imgs c \<noteq> [] \<and> map_of (imgs c) (Max (set (map fst (imgs c)))) = Some (im, vt)"
  show "map_of (imgs (Character_update dt c)) (Max (set (map fst (imgs c)))) =
        (case vt of None \<Rightarrow> Some (im, None) | Some t \<Rightarrow> if t < 0 then None else Some (im, Some (t - dt)))"
    using a by (simp add: Character_update_top update_conv' delete_conv' split: option.splits)
next
  assume a: "imgs c \<noteq> [] \<and> map_of (imgs c) (Max (set (map fst (imgs c)))) = Some (im, vt)"
  show "\<forall>k. k \<noteq> Max (set (map fst (imgs c))) \<longrightarrow>
         map_of (imgs (Character_update dt c)) k = map_of (imgs c) k"
    using a by (simp add: Character_update_top update_conv' delete_conv' split: option.splits)
qed

text \<open>The tick of half a second on the layers 0, 5 and 10: layer 10 goes from 250 to
  249.5 seconds and is displayed, layer 5 stays at two seconds.\<close>

theorem Character_update_layers_witness:
  "map_of (imgs (Character_update (1 / 2) hurt0)) 10 =
     Some (Rotozoom (Load (''ex05/fig/'' @ str_int 9 @ ''.png'')) 0 IMAGE_SCALE, Some (499 / 2)) \<and>
   map_of (imgs (Character_update (1 / 2) hurt0)) 5 =
     Some (Rotozoom (Load (''ex05/fig/'' @ str_int 8 @ ''.png'')) 0 IMAGE_SCALE, Some 2) \<and>
   image (Character_update (1 / 2) hurt0) =
     Some (Rotozoom (Load (''ex05/fig/'' @ str_int 9 @ ''.png'')) 0 IMAGE_SCALE)"
  using Character_update_layers [of "1 / 2" hurt0
      "Rotozoom (Load (''ex05/fig/'' @ str_int 9 @ ''.png'')) 0 IMAGE_SCALE" "Some 250"]
  by (simp add: imgs_hurt0)

subsection \<open>The update of a Bullet\<close>

lemma Bullet_hit_eq:
  "Bullet_hit i (b, ts, sc) =
     (kill b, ts[i := give_damage (damage b) (ts ! i)], sc + award (give_damage (damage b) (ts ! i)))"
  by (simp add: Bullet_hit_def Let_def award_def score_up_def)

lemma damage_kill: "damage (kill b) = damage b"
  by (simp add: kill_def)

lemma kill_kill: "kill (kill b) = kill b"
  by (simp add: kill_def)

lemma fold_Bullet_hit_bullet:
  "fst (fold Bullet_hit refs (b, ts, sc)) = (if refs = [] then b else kill b)"
  by (induction refs arbitrary: b ts sc) (simp_all add: Bullet_hit_eq kill_kill)

lemma fold_Bullet_hit_length:
  "length (fst (snd (fold Bullet_hit refs (b, ts, sc)))) = length ts"
  by (induction refs arbitrary: b ts sc) (simp_all add: Bullet_hit_eq)

lemma nth_list_update_any:
  "xs[i := v] ! j = (if j = i \<and> i < length xs then v else xs ! j)"
  by (cases "i < length xs") (simp_all add: nth_list_update list_update_beyond)

lemma fold_Bullet_hit_nth:
  "distinct refs \<Longrightarrow>
   fst (snd (fold Bullet_hit refs (b, ts, sc))) ! j =
     (if j \<in> set refs \<and> j < length ts then give_damage (damage b) (ts ! j) else ts ! j)"
proof (induction refs arbitrary: b ts sc)
  case Nil
  then show ?case by simp
next
  case (Cons i refs)
  let ?ts1 = "ts[i := give_damage (damage b) (ts ! i)]"
  have IH: "fst (snd (fold Bullet_hit refs (kill b, ?ts1, sc'))) ! j =
      (if j \<in> set refs \<and> j < length ?ts1 then give_damage (damage (kill b)) (?ts1 ! j) else ?ts1 ! j)"
    for sc'
    using Cons.prems by (intro Cons.IH) simp
  have notin: "i \<notin> set refs" using Cons.prems by simp
  have "fst (snd (fold Bullet_hit (i # refs) (b, ts, sc))) ! j =
      (if j \<in> set refs \<and> j < length ?ts1 then give_damage (damage (kill b)) (?ts1 ! j) else ?ts1 ! j)"
    by (simp add: Bullet_hit_eq IH)
  also have "\<dots> = (if j \<in> set (i # refs) \<and> j < length ts
                    then give_damage (damage b) (ts ! j) else ts ! j)"
    using notin by (auto simp add: damage_kill nth_list_update_any)
  finally show ?case .
qed

lemma fold_Bullet_hit_score:
  "distinct refs \<Longrightarrow>
   snd (snd (fold Bullet_hit refs (b, ts, sc))) =
     sc + (\<Sum>i\<leftarrow>refs. award (give_damage (damage b) (ts ! i)))"
proof (induction refs arbitrary: b ts sc)
  case Nil
  then show ?case by simp
next
  case (Cons i refs)
  let ?ts1 = "ts[i := give_damage (damage b) (ts ! i)]"
  have notin: "i \<notin> set refs" using Cons.prems by simp
  have nth: "?ts1 ! k = ts ! k" if "k \<in> set refs" for k
    using that notin by (auto simp add: nth_list_update_any)
  have same: "(\<Sum>k\<leftarrow>refs. award (give_damage (damage b) (?ts1 ! k))) =
              (\<Sum>k\<leftarrow>refs. award (give_damage (damage b) (ts ! k)))"
    by (intro arg_cong [where f = sum_list] map_cong) (simp_all add: nth)
  have "snd (snd (fold Bullet_hit refs (kill b, ?ts1, sc'))) =
        sc' + (\<Sum>k\<leftarrow>refs. award (give_damage (damage (kill b)) (?ts1 ! k)))" for sc'
    using Cons.prems by (intro Cons.IH) simp
  then show ?case by (simp add: Bullet_hit_eq damage_kill same)
qed

lemma distinct_spritecollide: "distinct (spritecollide r ts)"
  by (simp add: spritecollide_def)

lemma set_spritecollide:
  "set (spritecollide r ts) = {i. i < length ts \<and> alive (ts ! i) \<and> colliderect r (rect (ts ! i))}"
  by (auto simp add: spritecollide_def)

lemma Bullet_update_eq:
  "Bullet_update dt b (ts, sc) =
     fold Bullet_hit (spritecollide (Bullet_moved dt b) ts)
       (b\<lparr>rect := Bullet_moved dt b, alive := alive b \<and> \<not> life_tmr b > max_life_sec b,
          life_tmr := life_tmr b + dt\<rparr>, ts, sc)"
  by (cases b) (simp add: Bullet_update_def Let_def Bullet_moved_def kill_def)

lemma Bullet_update_bullet:
  "fst (Bullet_update dt b (ts, sc)) =
     b\<lparr>rect := Bullet_moved dt b,
       alive := alive b \<and> \<not> life_tmr b > max_life_sec b \<and> spritecollide (Bullet_moved dt b) ts = [],
       life_tmr := life_tmr b + dt\<rparr>"
  by (cases b) (simp add: Bullet_update_eq fold_Bullet_hit_bullet kill_def)

lemma Bullet_update_length:
  "length (fst (snd (Bullet_update dt b (ts, sc)))) = length ts"
  by (simp add: Bullet_update_eq fold_Bullet_hit_length)

lemma Bullet_update_nth:
  "fst (snd (Bullet_update dt b (ts, sc))) ! j =
     (if j < length ts \<and> alive (ts ! j) \<and> colliderect (Bullet_moved dt b) (rect (ts ! j))
      then give_damage (damage b) (ts ! j) else ts ! j)"
  by (simp add: Bullet_update_eq fold_Bullet_hit_nth distinct_spritecollide set_spritecollide)

lemma Bullet_update_score:
  "snd (snd (Bullet_update dt b (ts, sc))) =
     sc + (\<Sum>i\<leftarrow>spritecollide (Bullet_moved dt b) ts. award (give_damage (damage b) (ts ! i)))"
  by (simp add: Bullet_update_eq fold_Bullet_hit_score distinct_spritecollide)

lemma trunc_of_int [simp]: "trunc (real_of_int k) = k"
  by (simp add: trunc_def)

lemma trunc_numeral [simp]: "trunc (numeral n) = numeral n" "trunc 0 = 0" "trunc 1 = 1"
  by (simp_all add: trunc_def)

lemma bullet0_fields:
  "rect bullet0 = \<lparr>rect_x = - 10, rect_y = - 5, rect_w = 20, rect_h = 10\<rparr>"
  "alive bullet0" "vx bullet0 = 1" "vy bullet0 = 0" "bullet_speed bullet0 = 500"
  "life_tmr bullet0 = 0" "max_life_sec bullet0 = 5" "damage bullet0 = 10"
  "attackable_group bullet0 = Enemies"
  by (simp_all add: bullet0_def Bullet_init_def Let_def get_rect_def set_center_def env0_def)

lemma enemy0_rect:
  "rect enemy0 = \<lparr>rect_x = 10, rect_y = - 50, rect_w = 100, rect_h = 100\<rparr>"
  by (simp add: enemy0_def Enemy_init_def Enemy_Base_init_def Character_init_def set_image_def
      Let_def get_rect_def set_center_def env0_def)

lemma enemy0_fields:
  "alive enemy0" "hp enemy0 = 20" "invincible_tmr enemy0 = - 1" "max_invincible_tick enemy0 = 0"
  "cls enemy0 = Enemy" "e_score enemy0 = 30"
  by (simp_all add: enemy0_def Enemy_init_def Enemy_Base_init_def Character_init_def set_image_def
      Let_def get_rect_def set_center_def env0_def)

lemma enemy1_rect:
  "rect enemy1 = \<lparr>rect_x = 30, rect_y = - 50, rect_w = 100, rect_h = 100\<rparr>"
  by (simp add: enemy1_def Enemy_init_def Enemy_Base_init_def Character_init_def set_image_def
      Let_def get_rect_def set_center_def env0_def)

lemma enemy1_fields:
  "alive enemy1" "hp enemy1 = 10" "invincible_tmr enemy1 = - 1" "max_invincible_tick enemy1 = 0"
  "cls enemy1 = Enemy" "e_score enemy1 = 30"
  by (simp_all add: enemy1_def Enemy_init_def Enemy_Base_init_def Character_init_def set_image_def
      Let_def get_rect_def set_center_def env0_def)

lemma bullet0_moved:
  "Bullet_moved (1 / 10) bullet0 = \<lparr>rect_x = 40, rect_y = - 5, rect_w = 20, rect_h = 10\<rparr>"
  by (simp add: Bullet_moved_def bullet0_fields move_ip_def)

lemma bullet0_collides:
  "colliderect (Bullet_moved (1 / 10) bullet0) (rect enemy0)"
  "colliderect (Bullet_moved (1 / 10) bullet0) (rect enemy1)"
  by (simp_all add: bullet0_moved enemy0_rect enemy1_rect colliderect_def)

text \<open>
  C1, as the claim states it, fails. The bullet overlaps two enemies after its move; the
  update takes ten points of health from both: 20 to 10 and 10 to 0.
\<close>

theorem Bullet_update_all_overlapping_counterexample:
  "hp ([enemy0, enemy1] ! 0) = 20 \<and> hp ([enemy0, enemy1] ! 1) = 10 \<and>
   hp (fst (snd (Bullet_update (1 / 10) bullet0 ([enemy0, enemy1], 0))) ! 0) = 10 \<and>
   hp (fst (snd (Bullet_update (1 / 10) bullet0 ([enemy0, enemy1], 0))) ! 1) = 0"
  by (simp add: Bullet_update_nth bullet0_collides enemy0_fields enemy1_fields bullet0_fields
      hp_give_damage)

text \<open>
  C1, amended. In a call of \<^verbatim>\<open>Bullet.update\<close> every member of the target group
  whose rectangle overlaps the rectangle of the projectile after its move receives
  \<^verbatim>\<open>give_damage(damage)\<close>, once; every other entry of the group is unchanged. The
  projectile is a member of its groups afterwards exactly when it was one before, its
  age did not exceed its lifespan and no member overlapped it.
\<close>

theorem Bullet_update_all_overlapping:
  "length (fst (snd (Bullet_update dt b (ts, sc)))) = length ts \<and>
   (\<forall>j<length ts.
      fst (snd (Bullet_update dt b (ts, sc))) ! j =
        (if alive (ts ! j) \<and>
            colliderect (move_ip (rect b) (bullet_speed b * vx b * dt) (bullet_speed b * vy b * dt))
              (rect (ts ! j))
         then give_damage (damage b) (ts ! j) else ts ! j)) \<and>
   (alive (fst (Bullet_update dt b (ts, sc))) \<longleftrightarrow>
      alive b \<and> \<not> life_tmr b > max_life_sec b \<and>
      (\<forall>j<length ts. \<not> (alive (ts ! j) \<and>
         colliderect (move_ip (rect b) (bullet_speed b * vx b * dt) (bullet_speed b * vy b * dt))
           (rect (ts ! j)))))"
proof (intro conjI allI impI)
  show "length (fst (snd (Bullet_update dt b (ts, sc)))) = length ts"
    by (rule Bullet_update_length)
next
  fix j assume "j < length ts"
  then show "fst (snd (Bullet_update dt b (ts, sc))) ! j =
        (if alive (ts ! j) \<and>
            colliderect (move_ip (rect b) (bullet_speed b * vx b * dt) (bullet_speed b * vy b * dt))
              (rect (ts ! j))
         then give_damage (damage b) (ts ! j) else ts ! j)"
    by (simp add: Bullet_update_nth Bullet_moved_def)
next
  have "spritecollide (Bullet_moved dt b) ts = [] \<longleftrightarrow>
        (\<forall>j<length ts. \<not> (alive (ts ! j) \<and> colliderect (Bullet_moved dt b) (rect (ts ! j))))"
    using set_spritecollide [of "Bullet_moved dt b" ts]
    by (auto simp add: set_empty [symmetric] simp del: set_empty)
  then show "alive (fst (Bullet_update dt b (ts, sc))) \<longleftrightarrow>
      alive b \<and> \<not> life_tmr b > max_life_sec b \<and>
      (\<forall>j<length ts. \<not> (alive (ts ! j) \<and>
         colliderect (move_ip (rect b) (bullet_speed b * vx b * dt) (bullet_speed b * vy b * dt))
           (rect (ts ! j))))"
    by (simp add: Bullet_update_bullet Bullet_moved_def)
qed

text \<open>
  The bullet and the two enemies of the counterexample: both are damaged and the bullet
  is destroyed.
\<close>

theorem Bullet_update_all_overlapping_witness:
  "hp (fst (snd (Bullet_update (1 / 10) bullet0 ([enemy0, enemy1], 0))) ! 0) = 10 \<and>
   hp (fst (snd (Bullet_update (1 / 10) bullet0 ([enemy0, enemy1], 0))) ! 1) = 0 \<and>
   \<not> alive (fst (Bullet_update (1 / 10) bullet0 ([enemy0, enemy1], 0)))"
  using Bullet_update_all_overlapping [of "1 / 10" bullet0 "[enemy0, enemy1]" 0] bullet0_collides
  by (simp add: Bullet_moved_def enemy0_fields enemy1_fields bullet0_fields hp_give_damage
      All_less_Suc)

text \<open>
  C9. In the tick in which the age of a projectile exceeds its lifespan, the collision
  loop still runs: the projectile is destroyed, a member of the target group that
  overlaps it receives \<^verbatim>\<open>give_damage(damage)\<close>, that member is among the targets the
  loop visits, and the score grows by the award of every target visited (the score
  value of an Enemy or BOSS whose health is at or below zero after the hit).
\<close>

theorem expired_Bullet_still_hits:
  "life_tmr b > max_life_sec b \<Longrightarrow> j < length ts \<Longrightarrow> alive (ts ! j) \<Longrightarrow>
   colliderect (move_ip (rect b) (bullet_speed b * vx b * dt) (bullet_speed b * vy b * dt))
     (rect (ts ! j)) \<Longrightarrow>
   \<not> alive (fst (Bullet_update dt b (ts, sc))) \<and>
   fst (snd (Bullet_update dt b (ts, sc))) ! j = give_damage (damage b) (ts ! j) \<and>
   j \<in> set (spritecollide
              (move_ip (rect b) (bullet_speed b * vx b * dt) (bullet_speed b * vy b * dt)) ts) \<and>
   snd (snd (Bullet_update dt b (ts, sc))) =
     sc + (\<Sum>i\<leftarrow>spritecollide
                   (move_ip (rect b) (bullet_speed b * vx b * dt) (bullet_speed b * vy b * dt)) ts.
             award (give_damage (damage b) (ts ! i)))"
  by (simp add: Bullet_update_bullet Bullet_update_nth Bullet_update_score set_spritecollide
      Bullet_moved_def)

lemma expired_bullet0_fields:
  "rect expired_bullet0 = \<lparr>rect_x = - 10, rect_y = - 5, rect_w = 20, rect_h = 10\<rparr>"
  "alive expired_bullet0" "vx expired_bullet0 = 1" "vy expired_bullet0 = 0"
  "bullet_speed expired_bullet0 = 500"
  "life_tmr expired_bullet0 = 51 / 10" "max_life_sec expired_bullet0 = 5" "damage expired_bullet0 = 10"
  by (simp_all add: expired_bullet0_def bullet0_fields)

lemma expired_bullet0_collides:
  "colliderect (move_ip (rect expired_bullet0) (bullet_speed expired_bullet0 * vx expired_bullet0 * (1 / 10))
      (bullet_speed expired_bullet0 * vy expired_bullet0 * (1 / 10))) (rect enemy1)"
  by (simp add: expired_bullet0_fields move_ip_def enemy1_rect colliderect_def)

text \<open>
  The bullet at age 5.1 seconds with lifespan 5 and the enemy with ten points of health:
  the enemy is killed and the score goes from 0 to 30.
\<close>

theorem expired_Bullet_still_hits_witness:
  "max_life_sec expired_bullet0 < life_tmr expired_bullet0 \<and>
   hp enemy1 = 10 \<and> alive enemy1 \<and>
   \<not> alive (fst (Bullet_update (1 / 10) expired_bullet0 ([enemy1], 0))) \<and>
   hp (fst (snd (Bullet_update (1 / 10) expired_bullet0 ([enemy1], 0))) ! 0) = 0 \<and>
   \<not> alive (fst (snd (Bullet_update (1 / 10) expired_bullet0 ([enemy1], 0))) ! 0) \<and>
   snd (snd (Bullet_update (1 / 10) expired_bullet0 ([enemy1], 0))) = 30"
proof -
  have gd: "hp (give_damage 10 enemy1) = 0" "\<not> alive (give_damage 10 enemy1)"
    "award (give_damage 10 enemy1) = 30"
    by (simp_all add: give_damage_def Let_def damaged_def Character_kill_def kill_def
        enemy1_fields award_def is_Enemy_Base_def get_score_def)
  have sc: "spritecollide (move_ip (rect expired_bullet0)
        (bullet_speed expired_bullet0 * vx expired_bullet0 * (1 / 10))
        (bullet_speed expired_bullet0 * vy expired_bullet0 * (1 / 10))) [enemy1] = [0]"
    using expired_bullet0_collides by (simp add: spritecollide_def enemy1_fields)
  show ?thesis
    using expired_Bullet_still_hits [of expired_bullet0 0 "[enemy1]" "1 / 10" 0]
      expired_bullet0_collides sc gd
    by (simp add: expired_bullet0_fields(2-) enemy1_fields)
qed

lemma sprites_single: "sprites [s] = (if alive s then [0] else [])"
  by (simp add: sprites_def)

lemma spritecollide_Nil: "spritecollide r [] = []"
  by (simp add: spritecollide_def)

lemma Bullets_update_single:
  "attackable_group b = Enemies \<Longrightarrow>
   Bullets_update dt ([b], p, [], sc) =
     (if alive b
      then ([b\<lparr>rect := Bullet_moved dt b, alive := \<not> life_tmr b > max_life_sec b,
                life_tmr := life_tmr b + dt\<rparr>], p, [], sc)
      else ([b], p, [], sc))"
  by (simp add: Bullets_update_def sprites_single Bullet_update_at_def Let_def
      Bullet_update_bullet Bullet_update_eq spritecollide_Nil)

lemma Bullets_update_flight:
  "alive b \<Longrightarrow> attackable_group b = Enemies \<Longrightarrow> 0 \<le> dt \<Longrightarrow>
   life_tmr b + real n * dt \<le> max_life_sec b + dt \<Longrightarrow>
   \<exists>b'. (Bullets_update dt ^^ n) ([b], p, [], sc) = ([b'], p, [], sc) \<and> alive b' \<and>
        life_tmr b' = life_tmr b + real n * dt \<and> attackable_group b' = Enemies \<and>
        max_life_sec b' = max_life_sec b"
proof (induction n)
  case 0
  then show ?case by simp
next
  case (Suc n)
  have "life_tmr b + real n * dt \<le> max_life_sec b + dt"
    using Suc.prems by (simp add: algebra_simps)
  then obtain b' where b': "(Bullets_update dt ^^ n) ([b], p, [], sc) = ([b'], p, [], sc)"
    "alive b'" "life_tmr b' = life_tmr b + real n * dt" "attackable_group b' = Enemies"
    "max_life_sec b' = max_life_sec b"
    using Suc.IH Suc.prems by blast
  have le: "life_tmr b' \<le> max_life_sec b'"
    using b' Suc.prems by (simp add: algebra_simps)
  show ?case
    using b' le by (simp add: Bullets_update_single algebra_simps)
qed

lemma bullet0_flight_51:
  "\<exists>b'. (Bullets_update (1 / 10) ^^ 51) ([bullet0], player0, [], 0) = ([b'], player0, [], 0) \<and>
        alive b' \<and> life_tmr b' = 51 / 10 \<and> attackable_group b' = Enemies \<and> max_life_sec b' = 5"
  using Bullets_update_flight [of bullet0 "1 / 10" 51 player0 0]
  by (simp add: bullet0_fields)

lemma bullet0_after_51:
  "map alive (fst ((Bullets_update (1 / 10) ^^ 51) ([bullet0], player0, [], 0))) = [True]"
  "map life_tmr (fst ((Bullets_update (1 / 10) ^^ 51) ([bullet0], player0, [], 0))) = [51 / 10]"
  using bullet0_flight_51 by auto

lemma bullet0_after_52:
  "map alive (fst ((Bullets_update (1 / 10) ^^ 52) ([bullet0], player0, [], 0))) = [False]"
proof -
  obtain b' where b': "(Bullets_update (1 / 10) ^^ 51) ([bullet0], player0, [], 0) = ([b'], player0, [], 0)"
    "alive b'" "life_tmr b' = 51 / 10" "attackable_group b' = Enemies" "max_life_sec b' = 5"
    using bullet0_flight_51 by blast
  have "(Bullets_update (1 / 10) ^^ 52) ([bullet0], player0, [], 0) =
        Bullets_update (1 / 10) ((Bullets_update (1 / 10) ^^ 51) ([bullet0], player0, [], 0))"
    using funpow.simps(2) [of 51 "Bullets_update (1 / 10)"] by simp
  then show ?thesis using b' by (simp add: Bullets_update_single)
qed

text \<open>
  C3, as the claim states it, fails. The bullet with lifespan 5 that is updated 51 times
  with \<open>dt = 0.1\<close> and meets no target is still a member of its group, at age 5.1. And a
  tick of one millisecond, in which speed times direction times \<open>dt\<close> is half a pixel,
  leaves the rectangle where it was.
\<close>

theorem Bullet_update_lifespan_counterexample:
  "life_tmr bullet0 = 0 \<and> max_life_sec bullet0 = 5 \<and>
   map alive (fst ((Bullets_update (1 / 10) ^^ 51) ([bullet0], player0, [], 0))) = [True] \<and>
   map life_tmr (fst ((Bullets_update (1 / 10) ^^ 51) ([bullet0], player0, [], 0))) = [51 / 10] \<and>
   bullet_speed bullet0 * vx bullet0 * (1 / 1000) = 1 / 2 \<and>
   rect (fst (Bullet_update (1 / 1000) bullet0 ([], 0))) = rect bullet0"
  by (simp add: bullet0_after_51 bullet0_fields(2-) Bullet_update_bullet Bullet_moved_def move_ip_def
      trunc_def)

text \<open>
  C3, amended. A tick of a projectile moves its rectangle on each axis by speed times
  direction times \<open>dt\<close>, truncated toward zero to an integer, and adds exactly \<open>dt\<close> to
  its age. A projectile whose age exceeds its lifespan when the tick starts is removed
  in that tick, whatever it overlaps; a live projectile within its lifespan that
  overlaps no target stays. The bullet with lifespan 5 that is updated with \<open>dt = 0.1\<close>
  and meets no target is still there after tick 51 and is removed in tick 52.
\<close>

theorem Bullet_update_lifespan:
  "rect_x (rect (fst (Bullet_update dt b (ts, sc)))) = rect_x (rect b) + trunc (bullet_speed b * vx b * dt) \<and>
   rect_y (rect (fst (Bullet_update dt b (ts, sc)))) = rect_y (rect b) + trunc (bullet_speed b * vy b * dt) \<and>
   life_tmr (fst (Bullet_update dt b (ts, sc))) = life_tmr b + dt \<and>
   (life_tmr b > max_life_sec b \<longrightarrow> \<not> alive (fst (Bullet_update dt b (ts, sc)))) \<and>
   (alive b \<and> life_tmr b \<le> max_life_sec b \<and>
    spritecollide (move_ip (rect b) (bullet_speed b * vx b * dt) (bullet_speed b * vy b * dt)) ts = [] \<longrightarrow>
      alive (fst (Bullet_update dt b (ts, sc)))) \<and>
   map alive (fst ((Bullets_update (1 / 10) ^^ 51) ([bullet0], player0, [], 0))) = [True] \<and>
   map alive (fst ((Bullets_update (1 / 10) ^^ 52) ([bullet0], player0, [], 0))) = [False]"
  by (simp add: Bullet_update_bullet Bullet_moved_def move_ip_def
      bullet0_after_51 bullet0_after_52)

text \<open>
  One tick of a tenth of a second: the bullet at age 5.1 is removed, the new bullet
  stays, is 0.1 seconds old and has moved 50 pixels.
\<close>

theorem Bullet_update_lifespan_witness:
  "\<not> alive (fst (Bullet_update (1 / 10) expired_bullet0 ([], 0))) \<and>
   alive (fst (Bullet_update (1 / 10) bullet0 ([], 0))) \<and>
   life_tmr (fst (Bullet_update (1 / 10) bullet0 ([], 0))) = 1 / 10 \<and>
   rect_x (rect (fst (Bullet_update (1 / 10) bullet0 ([], 0)))) = 40"
  using Bullet_update_lifespan [of "1 / 10" expired_bullet0 "[]" 0]
    Bullet_update_lifespan [of "1 / 10" bullet0 "[]" 0]
  by (simp add: expired_bullet0_fields bullet0_fields spritecollide_Nil)

subsection \<open>Drawing through the camera\<close>

lemma trunc_minus: "trunc (- r) = - trunc r"
  by (simp add: trunc_def floor_minus ceiling_minus)

lemma move_ip_back: "move_ip (move_ip r dx dy) (- dx) (- dy) = r"
  by (simp add: move_ip_def trunc_minus)

lemma shift_sprites_back:
  "dx' = - dx \<Longrightarrow> dy' = - dy \<Longrightarrow> shift_sprites dx' dy' (shift_sprites dx dy grp) = grp"
  by (induction grp) (simp_all add: shift_sprites_def move_ip_back)

lemma Group_draw_result:
  "Group_draw grp surface =
     (if \<exists>s\<in>set grp. alive s \<and> image s = None then Inl AttributeError
      else Inr (surface @ map (\<lambda>s. (the (image s), rect s)) (filter alive grp)))"
  by (induction grp arbitrary: surface) (auto simp add: blit_def split: option.splits)

lemma set_shift_sprites_image:
  "(\<exists>s\<in>set (shift_sprites dx dy grp). alive s \<and> image s = None) \<longleftrightarrow>
   (\<exists>s\<in>set grp. alive s \<and> image s = None)"
  by (induction grp) (auto simp add: shift_sprites_def)

lemma filter_alive_shift_sprites:
  "map (\<lambda>s. (the (image s), rect s)) (filter alive (shift_sprites dx dy grp)) =
   map (\<lambda>s. (the (image s), move_ip (rect s) dx dy)) (filter alive grp)"
  by (induction grp) (simp_all add: shift_sprites_def)

lemma draw_result:
  "draw cam grp surface =
     (if \<exists>s\<in>set grp. alive s \<and> image s = None then Inl AttributeError
      else Inr (grp, surface @
             map (\<lambda>s. (the (image s),
                    move_ip (rect s)
                      (- fst (center_pos cam) + real_of_int (fst (screen_size cam)) / 2)
                      (- snd (center_pos cam) + real_of_int (snd (screen_size cam)) / 2)))
               (filter alive grp)))"
proof -
  have restore: "shift_sprites (fst (center_pos cam) - real_of_int (fst (screen_size cam)) / 2)
                 (snd (center_pos cam) - real_of_int (snd (screen_size cam)) / 2)
                 (shift_sprites (- fst (center_pos cam) + real_of_int (fst (screen_size cam)) / 2)
                    (- snd (center_pos cam) + real_of_int (snd (screen_size cam)) / 2) grp) = grp"
    by (rule shift_sprites_back) simp_all
  show ?thesis
    unfolding draw_def Let_def restore
    by (simp add: Group_draw_result set_shift_sprites_image filter_alive_shift_sprites)
qed

text \<open>
  C7. A call of \<^verbatim>\<open>draw\<close> of a camera-synchronised group that returns leaves every
  sprite of the group as it was, its rectangle included: the shift by the screen's half
  size minus the camera centre, truncated to integers, is applied before the blits, which
  show every member at its shifted rectangle, and is undone after them. The call raises
  only when a member has no image.
\<close>

theorem draw_round_trip:
  "(case draw cam grp surface of
      Inl err \<Rightarrow> err = AttributeError \<and> (\<exists>s\<in>set grp. alive s \<and> image s = None)
    | Inr r \<Rightarrow>
        fst r = grp \<and>
        snd r = surface @
          map (\<lambda>s. (the (image s),
                 move_ip (rect s)
                   (- fst (center_pos cam) + real_of_int (fst (screen_size cam)) / 2)
                   (- snd (center_pos cam) + real_of_int (snd (screen_size cam)) / 2)))
            (filter alive grp))"
  by (simp add: draw_result)

text \<open>
  The bullet at \<open>(-10, -5)\<close> drawn through the camera centred at \<open>(3.5, 0)\<close> on the
  screen of 1600 by 900: it is shown at \<open>(786, 445)\<close> and is unchanged.
\<close>

theorem draw_round_trip_witness:
  "draw camera0 [bullet0] [] =
     Inr ([bullet0], [(the (image bullet0), \<lparr>rect_x = 786, rect_y = 445, rect_w = 20, rect_h = 10\<rparr>)])"
proof -
  have im: "image bullet0 \<noteq> None"
    by (simp add: bullet0_def Bullet_init_def Let_def)
  have tr: "trunc (1593 / 2) = 796"
    by (simp add: trunc_def)
  show ?thesis
    using draw_round_trip [where cam = camera0 and grp = "[bullet0]" and surface = "[]"] im tr
    by (cases "draw camera0 [bullet0] []")
       (simp_all add: camera0_def bullet0_fields move_ip_def prod_eq_iff)
qed

subsection \<open>The boss near its target\<close>

lemma rect_Character_update: "rect (Character_update dt c) = rect c"
  by (simp add: Character_update_def Let_def split: option.splits prod.splits)

lemma attack_interval_tmr_Character_update:
  "attack_interval_tmr (Character_update dt c) = attack_interval_tmr c"
  by (simp add: Character_update_def Let_def split: option.splits prod.splits)

text \<open>
  C10. When the distance between the centre of the boss and the centre of its target is
  below 50, the update of the boss is the tick of the Character and nothing more: the
  group of enemy bullets is unchanged, and so are the rectangle and the attack timer of
  the boss.
\<close>

theorem BOSS_update_close:
  "calc_norm (rect b) (rect attack_target) < 50 \<Longrightarrow>
   BOSS_update E dt attack_target (b, enemy_bullet_group) =
     Inr (Character_update dt b, enemy_bullet_group) \<and>
   rect (Character_update dt b) = rect b \<and>
   attack_interval_tmr (Character_update dt b) = attack_interval_tmr b"
  by (simp add: BOSS_update_def Let_def rect_Character_update attack_interval_tmr_Character_update)

lemma player0_rect: "rect player0 = \<lparr>rect_x = - 24, rect_y = - 24, rect_w = 48, rect_h = 48\<rparr>"
  by (simp add: player0_eq Character_init_def set_image_def get_rect_def set_center_def env0_def
      img_def img0_def)

lemma boss0_fields:
  "rect boss0 = \<lparr>rect_x = 6, rect_y = - 24, rect_w = 48, rect_h = 48\<rparr>"
  "attack_interval_tmr boss0 = 3 / 2" "alive boss0" "hp boss0 = 50" "cls boss0 = BOSS"
  by (simp_all add: boss0_def BOSS_init_def Enemy_Base_init_def Character_init_def set_image_def
      get_rect_def set_center_def env0_def)

lemma boss0_near: "calc_norm (rect boss0) (rect player0) = 30"
proof -
  have "sqrt 900 = 30" by (rule real_sqrt_unique) simp_all
  then show ?thesis
    by (simp add: calc_norm_def Let_def boss0_fields player0_rect centerx_def centery_def)
qed

text \<open>
  The boss 30 pixels from the player with its attack timer at 1.5 seconds.
\<close>

theorem BOSS_update_close_witness:
  "calc_norm (rect boss0) (rect player0) < 50 \<and> ATTACK_INTERVAL_SEC < attack_interval_tmr boss0 \<and>
   BOSS_update env0 (1 / 10) player0 (boss0, []) = Inr (Character_update (1 / 10) boss0, []) \<and>
   rect (Character_update (1 / 10) boss0) = rect boss0 \<and>
   attack_interval_tmr (Character_update (1 / 10) boss0) = 3 / 2"
  using BOSS_update_close [of boss0 player0 env0 "1 / 10" "[]"]
  by (simp add: boss0_near boss0_fields(2-) ATTACK_INTERVAL_SEC_def)

subsection \<open>Loops with an invariant\<close>

lemma fold_invariant:
  "(\<And>x s. I s \<Longrightarrow> I (f x s)) \<Longrightarrow> I s \<Longrightarrow> I (fold f xs s)"
  by (induction xs arbitrary: s) simp_all

lemma for_each_invariant:
  "(\<And>i s s'. I s \<Longrightarrow> f i s = Inr s' \<Longrightarrow> I s') \<Longrightarrow> I st \<Longrightarrow> for_each refs f st = Inr st' \<Longrightarrow> I st'"
proof (induction refs arbitrary: st)
  case Nil
  then show ?case by simp
next
  case (Cons i refs)
  from Cons.prems(3) obtain s1 where s1: "f i st = Inr s1" "for_each refs f s1 = Inr st'"
    by (auto split: sum.splits)
  have "I s1" using Cons.prems(1) Cons.prems(2) s1(1) by blast
  then show ?case using Cons.IH Cons.prems(1) s1(2) by blast
qed

text \<open>A loop over distinct references whose pass at \<open>i\<close> changes the entry at \<open>i\<close> only.\<close>

lemma fold_refs_invariant:
  assumes step: "\<And>i s. i < length (get s) \<Longrightarrow> pre (get s ! i) \<Longrightarrow> I s \<Longrightarrow>
            I (f i s) \<and> length (get (f i s)) = length (get s) \<and>
            (\<forall>k. k \<noteq> i \<longrightarrow> get (f i s) ! k = get s ! k)"
    and "distinct refs" and "\<forall>i\<in>set refs. i < length (get s) \<and> pre (get s ! i)" and "I s"
  shows "I (fold f refs s)"
  using assms(2-)
proof (induction refs arbitrary: s)
  case Nil
  then show ?case by simp
next
  case (Cons i refs)
  have i: "i < length (get s)" "pre (get s ! i)" using Cons.prems(2) by simp_all
  note st = step [OF i Cons.prems(3)]
  have "\<forall>k\<in>set refs. k < length (get (f i s)) \<and> pre (get (f i s) ! k)"
    using Cons.prems(1,2) st by auto
  then have "I (fold f refs (f i s))"
    using Cons.IH [of "f i s"] Cons.prems(1) st by simp
  then show ?case by simp
qed

subsection \<open>The score and the dead\<close>

lemma cls_give_damage: "cls (give_damage d t) = cls t"
  by (simp add: give_damage_def Let_def damaged_def change_img_def set_image_def
      Character_kill_def kill_def)

lemma e_score_give_damage: "e_score (give_damage d t) = e_score t"
  by (simp add: give_damage_def Let_def damaged_def change_img_def set_image_def
      Character_kill_def kill_def)

lemma alive_give_damage:
  "alive (give_damage d t) = (alive t \<and> (cls t = Player \<or> 0 < hp (give_damage d t)))"
  by (auto simp add: give_damage_def Let_def damaged_def change_img_def set_image_def
      Character_kill_def kill_def)

lemma sound_target_give_damage:
  "sound_target v t \<Longrightarrow> sound_target v (give_damage d t)"
  by (auto simp add: sound_target_def is_Enemy_Base_def get_score_def cls_give_damage
      e_score_give_damage alive_give_damage)

lemma kill_value_alive: "sound_target v t \<Longrightarrow> alive t \<Longrightarrow> kill_value t = 0"
  by (simp add: sound_target_def kill_value_def)

lemma award_sound: "sound_target v t \<Longrightarrow> award t = kill_value t"
  by (simp add: sound_target_def award_def kill_value_def)

lemma kill_value_range: "sound_target v t \<Longrightarrow> 0 \<le> v \<Longrightarrow> 0 \<le> kill_value t"
  by (simp add: sound_target_def kill_value_def)

lemma dead_value_update:
  "i < length ts \<Longrightarrow> dead_value (ts[i := t]) = dead_value ts - kill_value (ts ! i) + kill_value t"
  by (induction ts arbitrary: i) (auto simp add: dead_value_def split: nat.splits)

lemma dead_value_update_same:
  "kill_value t = kill_value (ts ! i) \<Longrightarrow> dead_value (ts[i := t]) = dead_value ts"
  by (cases "i < length ts") (simp_all add: dead_value_update list_update_beyond)

lemma list_all_update:
  "list_all P ts \<Longrightarrow> P t \<Longrightarrow> list_all P (ts[i := t])"
  using set_update_subset_insert [of ts i t] by (auto simp add: list_all_iff)

lemma list_all_nth: "list_all P ts \<Longrightarrow> i < length ts \<Longrightarrow> P (ts ! i)"
  by (simp add: list_all_length)

lemma Bullet_hit_ledger:
  assumes "0 \<le> v" "i < length ts" "alive (ts ! i)" "ledger v c lo ts sc"
  shows "ledger v c lo (fst (snd (Bullet_hit i (b, ts, sc)))) (snd (snd (Bullet_hit i (b, ts, sc))))"
proof -
  let ?t = "give_damage (damage b) (ts ! i)"
  have s: "sound_target v (ts ! i)" using assms by (simp add: ledger_def list_all_nth)
  then have s': "sound_target v ?t" by (rule sound_target_give_damage)
  have k0: "kill_value (ts ! i) = 0" using s assms(3) by (rule kill_value_alive)
  have "dead_value (ts[i := ?t]) = dead_value ts + kill_value ?t"
    using assms(2) k0 by (simp add: dead_value_update)
  moreover have "award ?t = kill_value ?t" using s' by (rule award_sound)
  moreover have "0 \<le> kill_value ?t" using s' assms(1) by (rule kill_value_range)
  ultimately show ?thesis
    using assms(4) s' by (simp add: Bullet_hit_eq ledger_def list_all_update)
qed

lemma Bullet_update_ledger:
  assumes "0 \<le> v" "ledger v c lo ts sc"
  shows "ledger v c lo (fst (snd (Bullet_update dt b (ts, sc)))) (snd (snd (Bullet_update dt b (ts, sc))))"
proof -
  let ?I = "\<lambda>s. ledger v c lo (fst (snd s)) (snd (snd s))"
  let ?refs = "spritecollide (Bullet_moved dt b) ts"
  have "?I (fold Bullet_hit ?refs (b', ts, sc))" for b'
  proof (rule fold_refs_invariant [where get = "\<lambda>s. fst (snd s)" and pre = alive and I = ?I])
    fix i and s :: "Bullet \<times> Character list \<times> int"
    assume a: "i < length (fst (snd s))" "alive (fst (snd s) ! i)" "?I s"
    obtain b0 ts0 sc0 where s: "s = (b0, ts0, sc0)" by (cases s) auto
    have "?I (Bullet_hit i s)"
      using Bullet_hit_ledger [of v i ts0 c lo sc0 b0] assms(1) a by (simp add: s)
    then show "?I (Bullet_hit i s) \<and> length (fst (snd (Bullet_hit i s))) = length (fst (snd s)) \<and>
        (\<forall>k. k \<noteq> i \<longrightarrow> fst (snd (Bullet_hit i s)) ! k = fst (snd s) ! k)"
      by (simp add: s Bullet_hit_eq)
  next
    show "distinct ?refs" by (rule distinct_spritecollide)
  next
    show "\<forall>i\<in>set ?refs. i < length (fst (snd (b', ts, sc))) \<and> alive (fst (snd (b', ts, sc)) ! i)"
      by (simp add: set_spritecollide)
  next
    show "?I (b', ts, sc)" using assms(2) by simp
  qed
  then show ?thesis by (simp add: Bullet_update_eq)
qed

lemma Bullet_update_player:
  assumes "\<not> is_Enemy_Base p"
  shows "\<not> is_Enemy_Base (fst (snd (Bullet_update dt b ([p], sc))) ! 0) \<and>
         snd (snd (Bullet_update dt b ([p], sc))) = sc"
proof -
  have "\<not> is_Enemy_Base (give_damage d p)" for d
    using assms by (simp add: is_Enemy_Base_def cls_give_damage)
  then have aw: "award (give_damage d p) = 0" for d by (simp add: award_def)
  have i0: "i \<in> set (spritecollide r [p]) \<Longrightarrow> i = 0" for i r
    by (simp add: set_spritecollide)
  have "(\<Sum>i\<leftarrow>spritecollide r [p]. award (give_damage d ([p] ! i))) = 0" for r d
  proof -
    have "award (give_damage d ([p] ! i)) = 0" if "i \<in> set (spritecollide r [p])" for i
      using i0 [OF that] by (simp add: aw)
    then have eq: "map (\<lambda>i. award (give_damage d ([p] ! i))) (spritecollide r [p]) =
          map (\<lambda>i. 0) (spritecollide r [p])"
      by (intro map_cong) simp_all
    show ?thesis unfolding eq by simp
  qed
  then show ?thesis
    using assms by (simp add: Bullet_update_nth Bullet_update_score is_Enemy_Base_def cls_give_damage)
qed

subsection \<open>The books of a game\<close>

lemma booksI:
  "\<not> is_Enemy_Base (player g) \<Longrightarrow> ledger 30 (c + dead_value (boss g)) lo (enemies g) (score g) \<Longrightarrow>
   list_all (sound_target 40) (boss g) \<Longrightarrow> books c lo g"
  by (simp add: books_def scoring_inv_def killed_value_def ledger_def)

lemma books_enemies:
  "books c lo g \<Longrightarrow> ledger 30 (c + dead_value (boss g)) lo (enemies g) (score g)"
  by (simp add: books_def scoring_inv_def killed_value_def ledger_def)

lemma books_boss:
  "books c lo g \<Longrightarrow> ledger 40 (c + dead_value (enemies g)) lo (boss g) (score g)"
  by (simp add: books_def scoring_inv_def killed_value_def ledger_def)

lemma books_player: "books c lo g \<Longrightarrow> \<not> is_Enemy_Base (player g)"
  by (simp add: books_def scoring_inv_def)

lemma books_cong:
  "books c lo g \<Longrightarrow> enemies g' = enemies g \<Longrightarrow> boss g' = boss g \<Longrightarrow> score g' = score g \<Longrightarrow>
   is_Enemy_Base (player g') = is_Enemy_Base (player g) \<Longrightarrow> books c lo g'"
  by (simp add: books_def scoring_inv_def killed_value_def)

subsection \<open>The updates of the bullet groups keep the books\<close>

lemma Bullet_update_at_books:
  assumes "\<not> is_Enemy_Base (fst (snd st))"
    and "ledger 30 c lo (fst (snd (snd st))) (snd (snd (snd st)))"
  shows "\<not> is_Enemy_Base (fst (snd (Bullet_update_at dt i st))) \<and>
         ledger 30 c lo (fst (snd (snd (Bullet_update_at dt i st))))
           (snd (snd (snd (Bullet_update_at dt i st))))"
proof (cases "attackable_group (fst st ! i)")
  case Enemies
  then show ?thesis
    using assms Bullet_update_ledger [of 30 c lo "fst (snd (snd st))" "snd (snd (snd st))" dt "fst st ! i"]
    by (simp add: Bullet_update_at_def Let_def)
next
  case Player_group
  then show ?thesis
    using assms Bullet_update_player [of "fst (snd st)" dt "fst st ! i" "snd (snd (snd st))"]
    by (simp add: Bullet_update_at_def Let_def)
qed

lemma Bullets_update_books:
  assumes "\<not> is_Enemy_Base p" and "ledger 30 c lo es sc"
  shows "\<not> is_Enemy_Base (fst (snd (Bullets_update dt (bs, p, es, sc)))) \<and>
         ledger 30 c lo (fst (snd (snd (Bullets_update dt (bs, p, es, sc)))))
           (snd (snd (snd (Bullets_update dt (bs, p, es, sc)))))"
  unfolding Bullets_update_def
proof (rule fold_invariant [where I = "\<lambda>s. \<not> is_Enemy_Base (fst (snd s)) \<and>
        ledger 30 c lo (fst (snd (snd s))) (snd (snd (snd s)))"])
  fix i and s :: "Bullet list \<times> Character \<times> Character list \<times> int"
  assume "\<not> is_Enemy_Base (fst (snd s)) \<and> ledger 30 c lo (fst (snd (snd s))) (snd (snd (snd s)))"
  then show "\<not> is_Enemy_Base (fst (snd (Bullet_update_at dt i s))) \<and>
        ledger 30 c lo (fst (snd (snd (Bullet_update_at dt i s))))
          (snd (snd (snd (Bullet_update_at dt i s))))"
    using Bullet_update_at_books by blast
next
  show "\<not> is_Enemy_Base (fst (snd (bs, p, es, sc))) \<and>
        ledger 30 c lo (fst (snd (snd (bs, p, es, sc)))) (snd (snd (snd (bs, p, es, sc))))"
    using assms by simp
qed

lemma update_bullets_books: "books c lo g \<Longrightarrow> books c lo (update_bullets g)"
  using Bullets_update_books [of "player g" "c + dead_value (boss g)" lo "enemies g" "score g"
      "dtime g" "bullets g"]
  by (intro booksI) (simp_all add: update_bullets_def Let_def books_player books_enemies,
      simp add: books_def scoring_inv_def)

lemma update_flame_books: "books c lo g \<Longrightarrow> books c lo (update_flame g)"
  using Bullets_update_books [of "player g" "c + dead_value (boss g)" lo "enemies g" "score g"
      "dtime g" "flame g"]
  by (intro booksI) (simp_all add: update_flame_def Let_def books_player books_enemies,
      simp add: books_def scoring_inv_def)

subsection \<open>The bosses hit by bullets\<close>

lemma groupcollide_at_keys:
  "map fst (snd (snd (groupcollide_at da dk i (ga, gb, cr)))) =
     map fst cr @ (if spritecollide (rect (ga ! i)) gb \<noteq> [] then [i] else [])"
  by (simp add: groupcollide_at_def Let_def)

lemma groupcollide_at_first:
  "fst (groupcollide_at False dk i (ga, gb, cr)) = ga"
  by (simp add: groupcollide_at_def Let_def)

lemma fold_groupcollide_at_first:
  "fst (fold (groupcollide_at False dk) refs (ga, gb, cr)) = ga"
proof (induction refs arbitrary: gb cr)
  case Nil
  then show ?case by simp
next
  case (Cons i refs)
  obtain gb' cr' where "groupcollide_at False dk i (ga, gb, cr) = (ga, gb', cr')"
    using groupcollide_at_first [of dk i ga gb cr]
    by (cases "groupcollide_at False dk i (ga, gb, cr)") auto
  then show ?case using Cons.IH by simp
qed

lemma fold_groupcollide_at_keys:
  "distinct (map fst cr @ refs) \<Longrightarrow>
   distinct (map fst (snd (snd (fold (groupcollide_at da dk) refs (ga, gb, cr))))) \<and>
   set (map fst (snd (snd (fold (groupcollide_at da dk) refs (ga, gb, cr))))) \<subseteq>
     set (map fst cr) \<union> set refs"
proof (induction refs arbitrary: ga gb cr)
  case Nil
  then show ?case by simp
next
  case (Cons i refs)
  obtain ga' gb' cr' where st: "groupcollide_at da dk i (ga, gb, cr) = (ga', gb', cr')"
    by (cases "groupcollide_at da dk i (ga, gb, cr)") auto
  have keys: "map fst cr' = map fst cr @ (if spritecollide (rect (ga ! i)) gb \<noteq> [] then [i] else [])"
    using groupcollide_at_keys [of da dk i ga gb cr] st by simp
  have "distinct (map fst cr' @ refs)"
    using Cons.prems keys by auto
  then have "distinct (map fst (snd (snd (fold (groupcollide_at da dk) refs (ga', gb', cr'))))) \<and>
      set (map fst (snd (snd (fold (groupcollide_at da dk) refs (ga', gb', cr'))))) \<subseteq>
        set (map fst cr') \<union> set refs"
    by (rule Cons.IH)
  then show ?case using st keys by (auto split: if_splits)
qed

lemma groupcollide_keys:
  "distinct (map fst (snd (snd (groupcollide ga gb da dk)))) \<and>
   (\<forall>i\<in>set (map fst (snd (snd (groupcollide ga gb da dk)))). i < length ga \<and> alive (ga ! i))"
proof -
  have d: "distinct (map fst ([] :: (nat \<times> nat list) list) @ sprites ga)"
    by (simp add: sprites_def)
  have "set (sprites ga) = {i. i < length ga \<and> alive (ga ! i)}"
    by (auto simp add: sprites_def)
  then show ?thesis
    using fold_groupcollide_at_keys [OF d, of da dk ga gb]
    by (auto simp add: groupcollide_def)
qed

lemma groupcollide_first: "fst (groupcollide ga gb False dk) = ga"
  by (simp add: groupcollide_def fold_groupcollide_at_first)

lemma boss_hit_ledger:
  assumes "i < length bs" "alive (bs ! i)" "ledger 40 c lo bs sc"
  shows "ledger 40 c lo (fst (boss_hit i (bs, sc))) (snd (boss_hit i (bs, sc)))"
proof -
  let ?t = "give_damage 10 (bs ! i)"
  have s: "sound_target 40 (bs ! i)" using assms by (simp add: ledger_def list_all_nth)
  then have s': "sound_target 40 ?t" by (rule sound_target_give_damage)
  have k0: "kill_value (bs ! i) = 0" using s assms(2) by (rule kill_value_alive)
  have dv: "dead_value (bs[i := ?t]) = dead_value bs + kill_value ?t"
    using assms(1) k0 by (simp add: dead_value_update)
  have kv: "kill_value ?t = (if hp ?t \<le> 0 then 40 else 0)"
    using s' by (simp add: kill_value_def sound_target_def)
  show ?thesis
    using assms(3) s' dv kv
    by (simp add: boss_hit_def Let_def ledger_def list_all_update score_up_def)
qed

lemma fold_boss_hit_ledger:
  assumes "distinct refs" "\<forall>i\<in>set refs. i < length bs \<and> alive (bs ! i)" "ledger 40 c lo bs sc"
  shows "ledger 40 c lo (fst (fold boss_hit refs (bs, sc))) (snd (fold boss_hit refs (bs, sc)))"
proof (rule fold_refs_invariant [where get = fst and pre = alive
      and I = "\<lambda>s. ledger 40 c lo (fst s) (snd s)"])
  fix i and s :: "Character list \<times> int"
  assume a: "i < length (fst s)" "alive (fst s ! i)" "ledger 40 c lo (fst s) (snd s)"
  obtain bs0 sc0 where s: "s = (bs0, sc0)" by (cases s) auto
  have "ledger 40 c lo (fst (boss_hit i s)) (snd (boss_hit i s))"
    using boss_hit_ledger [of i bs0 c lo sc0] a by (simp add: s)
  then show "ledger 40 c lo (fst (boss_hit i s)) (snd (boss_hit i s)) \<and>
      length (fst (boss_hit i s)) = length (fst s) \<and>
      (\<forall>k. k \<noteq> i \<longrightarrow> fst (boss_hit i s) ! k = fst s ! k)"
    by (simp add: s boss_hit_def Let_def)
next
  show "distinct refs" by (rule assms(1))
next
  show "\<forall>i\<in>set refs. i < length (fst (bs, sc)) \<and> alive (fst (bs, sc) ! i)"
    using assms(2) by simp
next
  show "ledger 40 c lo (fst (bs, sc)) (snd (bs, sc))" using assms(3) by simp
qed

lemma books_swap:
  "\<not> is_Enemy_Base (player g) \<Longrightarrow> ledger 40 (c + dead_value (enemies g)) lo (boss g) (score g) \<Longrightarrow>
   list_all (sound_target 30) (enemies g) \<Longrightarrow> books c lo g"
  by (simp add: books_def scoring_inv_def killed_value_def ledger_def)

lemma collide_boss_bullets_books: "books c lo g \<Longrightarrow> books c lo (collide_boss_bullets g)"
proof -
  assume b: "books c lo g"
  let ?r = "groupcollide (boss g) (bullets g) False True"
  let ?keys = "map fst (snd (snd ?r))"
  have "ledger 40 (c + dead_value (enemies g)) lo (fst (fold boss_hit ?keys (boss g, score g)))
          (snd (fold boss_hit ?keys (boss g, score g)))"
    using groupcollide_keys [of "boss g" "bullets g" False True] books_boss [OF b]
    by (intro fold_boss_hit_ledger) simp_all
  then show ?thesis
    using b
    by (intro books_swap)
       (simp_all add: collide_boss_bullets_def Let_def groupcollide_first books_player,
        simp add: books_def scoring_inv_def)
qed

subsection \<open>Updates that leave health alone\<close>

lemma alive_Character_update: "alive (Character_update dt c) = alive c"
  by (simp add: Character_update_def Let_def split: option.splits prod.splits)

lemma cls_Character_update: "cls (Character_update dt c) = cls c"
  by (simp add: Character_update_def Let_def split: option.splits prod.splits)

lemma e_score_Character_update: "e_score (Character_update dt c) = e_score c"
  by (simp add: Character_update_def Let_def split: option.splits prod.splits)

lemma sound_target_cong:
  "hp t' = hp t \<Longrightarrow> alive t' = alive t \<Longrightarrow> cls t' = cls t \<Longrightarrow> e_score t' = e_score t \<Longrightarrow>
   sound_target v t' = sound_target v t \<and> kill_value t' = kill_value t"
  by (simp add: sound_target_def kill_value_def is_Enemy_Base_def get_score_def)

lemma Enemy_update_vitals:
  "Enemy_update dt tg e = Inr e' \<Longrightarrow>
   hp e' = hp e \<and> alive e' = alive e \<and> cls e' = cls e \<and> e_score e' = e_score e"
  by (auto simp add: Enemy_update_def Let_def hp_Character_update alive_Character_update
      cls_Character_update e_score_Character_update split: if_splits sum.splits)

lemma BOSS_update_vitals:
  "BOSS_update E dt tg (b, fl) = Inr r \<Longrightarrow>
   hp (fst r) = hp b \<and> alive (fst r) = alive b \<and> cls (fst r) = cls b \<and> e_score (fst r) = e_score b"
  by (auto simp add: BOSS_update_def Let_def hp_Character_update alive_Character_update
      cls_Character_update e_score_Character_update split: if_splits sum.splits)

lemma settled_update:
  assumes "settled v d ts"
    and "i < length ts \<Longrightarrow> sound_target v t' = sound_target v (ts ! i) \<and> kill_value t' = kill_value (ts ! i)"
  shows "settled v d (ts[i := t'])"
proof (cases "i < length ts")
  case True
  then have "sound_target v t'" "kill_value t' = kill_value (ts ! i)"
    using assms by (simp_all add: settled_def list_all_nth)
  then show ?thesis
    using assms(1) by (simp add: settled_def list_all_update dead_value_update_same)
next
  case False
  then show ?thesis using assms(1) by (simp add: list_update_beyond)
qed

lemma Enemy_update_at_settled:
  "settled v d es \<Longrightarrow> Enemy_update_at dt tg i es = Inr es' \<Longrightarrow> settled v d es'"
proof -
  assume a: "settled v d es" "Enemy_update_at dt tg i es = Inr es'"
  then obtain e' where e': "Enemy_update dt tg (es ! i) = Inr e'" "es' = es[i := e']"
    by (auto simp add: Enemy_update_at_def split: sum.splits)
  show ?thesis
    unfolding e'(2)
    using a(1) Enemy_update_vitals [OF e'(1)] sound_target_cong [of e' "es ! i" v]
    by (intro settled_update) simp_all
qed

lemma BOSS_update_at_settled:
  "settled v d (fst st) \<Longrightarrow> BOSS_update_at E dt tg i st = Inr st' \<Longrightarrow> settled v d (fst st')"
proof -
  assume a: "settled v d (fst st)" "BOSS_update_at E dt tg i st = Inr st'"
  then obtain r where r: "BOSS_update E dt tg (fst st ! i, snd st) = Inr r"
      "st' = ((fst st)[i := fst r], snd r)"
    by (auto simp add: BOSS_update_at_def split: sum.splits)
  show ?thesis
    unfolding r(2)
    using a(1) BOSS_update_vitals [OF r(1)] sound_target_cong [of "fst r" "fst st ! i" v]
    by (simp add: settled_update)
qed

lemma books_settled:
  "books c lo g \<longleftrightarrow>
     settled 30 (dead_value (enemies g)) (enemies g) \<and> settled 40 (dead_value (boss g)) (boss g) \<and>
     \<not> is_Enemy_Base (player g) \<and> score g - (dead_value (enemies g) + dead_value (boss g)) = c \<and>
     lo \<le> score g"
  by (auto simp add: books_def scoring_inv_def killed_value_def settled_def)

lemma books_settledI:
  "books c lo g \<Longrightarrow> settled 30 (dead_value (enemies g)) es \<Longrightarrow>
   settled 40 (dead_value (boss g)) bs \<Longrightarrow> enemies g' = es \<Longrightarrow> boss g' = bs \<Longrightarrow>
   score g' = score g \<Longrightarrow> is_Enemy_Base (player g') = is_Enemy_Base (player g) \<Longrightarrow> books c lo g'"
  by (auto simp add: books_def scoring_inv_def killed_value_def settled_def)

lemma update_enemies_books: "books c lo g \<Longrightarrow> update_enemies g = Inr g' \<Longrightarrow> books c lo g'"
proof -
  assume b: "books c lo g" and u: "update_enemies g = Inr g'"
  from u obtain grp where grp:
      "for_each (sprites (enemies g)) (Enemy_update_at (dtime g) (player g)) (enemies g) = Inr grp"
      "g' = g\<lparr>enemies := grp\<rparr>"
    by (auto simp add: update_enemies_def split: sum.splits)
  have "settled 30 (dead_value (enemies g)) grp"
    using grp(1)
  proof (rule for_each_invariant [rotated 2])
    show "settled 30 (dead_value (enemies g)) (enemies g)"
      using b by (simp add: books_settled)
  qed (rule Enemy_update_at_settled)
  then show ?thesis
    using b by (intro books_settledI [OF b]) (simp_all add: grp(2) books_settled)
qed

lemma update_boss_books: "books c lo g \<Longrightarrow> update_boss E g = Inr g' \<Longrightarrow> books c lo g'"
proof -
  assume b: "books c lo g" and u: "update_boss E g = Inr g'"
  from u obtain st where st:
      "for_each (sprites (boss g)) (BOSS_update_at E (dtime g) (player g)) (boss g, flame g) = Inr st"
      "g' = g\<lparr>boss := fst st, flame := snd st\<rparr>"
    by (auto simp add: update_boss_def split: sum.splits)
  have "settled 40 (dead_value (boss g)) (fst st)"
    using st(1)
  proof (rule for_each_invariant [where I = "\<lambda>s. settled 40 (dead_value (boss g)) (fst s)", rotated 2])
    show "settled 40 (dead_value (boss g)) (fst (boss g, flame g))"
      using b by (simp add: books_settled)
  qed (rule BOSS_update_at_settled)
  then show ?thesis
    using b by (intro books_settledI [OF b]) (simp_all add: st(2) books_settled)
qed

subsection \<open>The other steps of a frame\<close>

lemma difficulty_books: "books c lo g \<Longrightarrow> books c lo (difficulty g)"
  by (erule books_cong) (simp_all add: difficulty_def is_Enemy_Base_def)

lemma dead_value_append: "dead_value (ts @ [t]) = dead_value ts + kill_value t"
  by (simp add: dead_value_def)

lemma settled_add:
  "settled v d ts \<Longrightarrow> is_Enemy_Base t \<Longrightarrow> get_score t = v \<Longrightarrow> 0 < hp t \<Longrightarrow> settled v d (add t ts)"
  by (simp add: settled_def add_def dead_value_append kill_value_def sound_target_def
      is_Enemy_Base_def get_score_def)

lemma Enemy_init_fields:
  "hp (Enemy_init E sizes choice pos hp0 sc) = hp0"
  "cls (Enemy_init E sizes choice pos hp0 sc) = Enemy"
  "e_score (Enemy_init E sizes choice pos hp0 sc) = sc"
  by (simp_all add: Enemy_init_def Let_def Enemy_Base_init_def Character_init_def set_image_def)

lemma BOSS_init_fields:
  "hp (BOSS_init E pos hp0 sc) = hp0"
  "cls (BOSS_init E pos hp0 sc) = BOSS"
  "e_score (BOSS_init E pos hp0 sc) = sc"
  by (simp_all add: BOSS_init_def Enemy_Base_init_def Character_init_def set_image_def)

lemma spawn_enemy_books: "books c lo g \<Longrightarrow> books c lo (spawn_enemy E inp g)"
proof -
  assume b: "books c lo g"
  have "settled 30 (dead_value (enemies g)) (enemies (spawn_enemy E inp g))"
    using b
    by (simp add: spawn_enemy_def Let_def books_settled settled_add Enemy_init_fields
        is_Enemy_Base_def get_score_def)
  then show ?thesis
    using b by (intro books_settledI [OF b]) (simp_all add: spawn_enemy_def Let_def books_settled)
qed

lemma spawn_boss_books: "books c lo g \<Longrightarrow> books c lo (spawn_boss E inp g)"
proof -
  assume b: "books c lo g"
  have "settled 40 (dead_value (boss g)) (boss (spawn_boss E inp g))"
    using b
    by (simp add: spawn_boss_def Let_def books_settled settled_add BOSS_init_fields
        is_Enemy_Base_def get_score_def)
  then show ?thesis
    using b by (intro books_settledI [OF b]) (simp_all add: spawn_boss_def Let_def books_settled)
qed

lemma collide_flame_bullets_books: "books c lo g \<Longrightarrow> books c lo (collide_flame_bullets g)"
  by (erule books_cong) (simp_all add: collide_flame_bullets_def Let_def)

lemma collide_player_enemies_books: "books c lo g \<Longrightarrow> books c lo (collide_player_enemies g)"
proof -
  assume b: "books c lo g"
  have "cls (fold (\<lambda>_ p. give_damage 10 p) refs p) = cls p" for refs :: "nat list" and p
    by (induction refs arbitrary: p) (simp_all add: cls_give_damage)
  then show ?thesis
    using b by (intro books_cong [OF b]) (simp_all add: collide_player_enemies_def is_Enemy_Base_def)
qed

lemma draw_group: "draw cam grp surface = Inr r \<Longrightarrow> fst r = grp"
  by (auto simp add: draw_result split: if_splits)

lemma draw_background_books: "books c lo g \<Longrightarrow> draw_background g = Inr g' \<Longrightarrow> books c lo g'"
  by (erule books_cong) (auto simp add: draw_background_def split: sum.splits)

lemma prelude_books: "books c lo g \<Longrightarrow> prelude E inp g = Inr g' \<Longrightarrow> books c lo g'"
  unfolding prelude_def
  by (erule draw_background_books [rotated])
     (intro collide_boss_bullets_books collide_player_enemies_books collide_flame_bullets_books
        spawn_boss_books spawn_enemy_books difficulty_books)

lemma cls_Player_update: "Player_update k dt p = Inr p' \<Longrightarrow> cls p' = cls p"
  by (auto simp add: Player_update_def Let_def set_image_def cls_Character_update
      split: if_splits option.splits)

lemma ending_books: "books c lo g \<Longrightarrow> ending E inp txt col num g = Inr g' \<Longrightarrow> books c lo g'"
proof -
  assume b: "books c lo g" and e: "ending E inp txt col num g = Inr g'"
  from e obtain p' r where p': "Player_update (key_lst inp) (dtime g) (change_img num 10 (Some 250) (player g)) = Inr p'"
      "draw (camera g) [p'] (overlay E txt col (real_of_int WIDTH / 2, real_of_int HEIGHT / 2) (screen g)) = Inr r"
      "g' = g\<lparr>screen := snd r, player := fst r ! 0\<rparr>"
    by (auto simp add: ending_def Let_def split: sum.splits)
  have "fst r ! 0 = p'" using draw_group [OF p'(2)] by simp
  moreover have "cls p' = cls (player g)"
    using cls_Player_update [OF p'(1)] by (simp add: change_img_def set_image_def)
  ultimately show ?thesis
    by (intro books_cong [OF b]) (simp_all add: p'(3) is_Enemy_Base_def)
qed

lemma show_timer_books: "books c lo g \<Longrightarrow> books c lo (show_timer E g)"
  by (erule books_cong) (simp_all add: show_timer_def)

lemma player_step_books: "books c lo g \<Longrightarrow> player_step inp g = Inr g' \<Longrightarrow> books c lo g'"
  by (erule books_cong)
     (auto simp add: player_step_def is_Enemy_Base_def dest: cls_Player_update split: sum.splits)

lemma shoot_books: "books c lo g \<Longrightarrow> shoot E inp g = Inr g' \<Longrightarrow> books c lo g'"
  by (erule books_cong) (auto simp add: shoot_def Let_def split: if_splits sum.splits)

lemma draw_player_books: "books c lo g \<Longrightarrow> draw_player g = Inr g' \<Longrightarrow> books c lo g'"
  by (erule books_cong) (auto simp add: draw_player_def dest: draw_group split: sum.splits)

lemma draw_bullets_books: "books c lo g \<Longrightarrow> draw_bullets g = Inr g' \<Longrightarrow> books c lo g'"
  by (erule books_cong) (auto simp add: draw_bullets_def dest: draw_group split: sum.splits)

lemma draw_enemies_books: "books c lo g \<Longrightarrow> draw_enemies g = Inr g' \<Longrightarrow> books c lo g'"
  by (erule books_cong) (auto simp add: draw_enemies_def dest: draw_group split: sum.splits)

lemma draw_boss_books: "books c lo g \<Longrightarrow> draw_boss g = Inr g' \<Longrightarrow> books c lo g'"
  by (erule books_cong) (auto simp add: draw_boss_def dest: draw_group split: sum.splits)

lemma draw_flame_books: "books c lo g \<Longrightarrow> draw_flame g = Inr g' \<Longrightarrow> books c lo g'"
  by (erule books_cong) (auto simp add: draw_flame_def dest: draw_group split: sum.splits)

lemma end_of_frame_books: "books c lo g \<Longrightarrow> books c lo (end_of_frame inp (draw_score g))"
  by (erule books_cong) (simp_all add: end_of_frame_def draw_score_def)

lemma bind_Inr: "bind m f = Inr y \<longleftrightarrow> (\<exists>x. m = Inr x \<and> f x = Inr y)"
  by (cases m) (simp_all add: bind_def)

text \<open>The steps of the part of a frame in which the game goes on, one by one.\<close>

lemma play_steps:
  assumes "play E inp g = Inr g'"
  obtains g1 g2 g3 g4 g5 g6 g7 g8 g9 where
    "player_step inp g = Inr g1" "shoot E inp g1 = Inr g2" "update_enemies g2 = Inr g3"
    "update_boss E g3 = Inr g4" "draw_player (update_flame (update_bullets g4)) = Inr g5"
    "draw_bullets g5 = Inr g6" "draw_enemies g6 = Inr g7" "draw_boss g7 = Inr g8"
    "draw_flame g8 = Inr g9" "g' = end_of_frame inp (draw_score g9)"
proof -
  from assms obtain g1 where g1: "player_step inp g = Inr g1"
    and p1: "bind (shoot E inp g1) (\<lambda>g.
     bind (update_enemies g) (\<lambda>g.
     bind (update_boss E g) (\<lambda>g.
     bind (draw_player (update_flame (update_bullets g))) (\<lambda>g.
     bind (draw_bullets g) (\<lambda>g.
     bind (draw_enemies g) (\<lambda>g.
     bind (draw_boss g) (\<lambda>g.
     bind (draw_flame g) (\<lambda>g.
     Inr (end_of_frame inp (draw_score g)))))))))) = Inr g'"
    unfolding play_def by (subst (asm) bind_Inr) blast
  from p1 obtain g2 where g2: "shoot E inp g1 = Inr g2"
    and p2: "bind (update_enemies g2) (\<lambda>g.
     bind (update_boss E g) (\<lambda>g.
     bind (draw_player (update_flame (update_bullets g))) (\<lambda>g.
     bind (draw_bullets g) (\<lambda>g.
     bind (draw_enemies g) (\<lambda>g.
     bind (draw_boss g) (\<lambda>g.
     bind (draw_flame g) (\<lambda>g.
     Inr (end_of_frame inp (draw_score g))))))))) = Inr g'"
    by (subst (asm) bind_Inr) blast
  from p2 obtain g3 where g3: "update_enemies g2 = Inr g3"
    and p3: "bind (update_boss E g3) (\<lambda>g.
     bind (draw_player (update_flame (update_bullets g))) (\<lambda>g.
     bind (draw_bullets g) (\<lambda>g.
     bind (draw_enemies g) (\<lambda>g.
     bind (draw_boss g) (\<lambda>g.
     bind (draw_flame g) (\<lambda>g.
     Inr (end_of_frame inp (draw_score g)))))))) = Inr g'"
    by (subst (asm) bind_Inr) blast
  from p3 obtain g4 where g4: "update_boss E g3 = Inr g4"
    and p4: "bind (draw_player (update_flame (update_bullets g4))) (\<lambda>g.
     bind (draw_bullets g) (\<lambda>g.
     bind (draw_enemies g) (\<lambda>g.
     bind (draw_boss g) (\<lambda>g.
     bind (draw_flame g) (\<lambda>g.
     Inr (end_of_frame inp (draw_score g))))))) = Inr g'"
    by (subst (asm) bind_Inr) blast
  from p4 obtain g5 where g5: "draw_player (update_flame (update_bullets g4)) = Inr g5"
    and p5: "bind (draw_bullets g5) (\<lambda>g.
     bind (draw_enemies g) (\<lambda>g.
     bind (draw_boss g) (\<lambda>g.
     bind (draw_flame g) (\<lambda>g.
     Inr (end_of_frame inp (draw_score g)))))) = Inr g'"
    by (subst (asm) bind_Inr) blast
  from p5 obtain g6 where g6: "draw_bullets g5 = Inr g6"
    and p6: "bind (draw_enemies g6) (\<lambda>g.
     bind (draw_boss g) (\<lambda>g.
     bind (draw_flame g) (\<lambda>g.
     Inr (end_of_frame inp (draw_score g))))) = Inr g'"
    by (subst (asm) bind_Inr) blast
  from p6 obtain g7 where g7: "draw_enemies g6 = Inr g7"
    and p7: "bind (draw_boss g7) (\<lambda>g.
     bind (draw_flame g) (\<lambda>g.
     Inr (end_of_frame inp (draw_score g)))) = Inr g'"
    by (subst (asm) bind_Inr) blast
  from p7 obtain g8 where g8: "draw_boss g7 = Inr g8"
    and p8: "bind (draw_flame g8) (\<lambda>g. Inr (end_of_frame inp (draw_score g))) = Inr g'"
    by (subst (asm) bind_Inr) blast
  from p8 obtain g9 where g9: "draw_flame g8 = Inr g9"
    and p9: "g' = end_of_frame inp (draw_score g9)"
    by (subst (asm) bind_Inr) auto
  show ?thesis using that g1 g2 g3 g4 g5 g6 g7 g8 g9 p9 by blast
qed

lemma play_books: "books c lo g \<Longrightarrow> play E inp g = Inr g' \<Longrightarrow> books c lo g'"
proof -
  assume b: "books c lo g" and p: "play E inp g = Inr g'"
  from p obtain g1 g2 g3 g4 g5 g6 g7 g8 g9 where
    s: "player_step inp g = Inr g1" "shoot E inp g1 = Inr g2" "update_enemies g2 = Inr g3"
    "update_boss E g3 = Inr g4" "draw_player (update_flame (update_bullets g4)) = Inr g5"
    "draw_bullets g5 = Inr g6" "draw_enemies g6 = Inr g7" "draw_boss g7 = Inr g8"
    "draw_flame g8 = Inr g9" "g' = end_of_frame inp (draw_score g9)"
    by (rule play_steps)
  have "books c lo g1" using b s(1) by (rule player_step_books)
  then have "books c lo g2" using s(2) by (rule shoot_books)
  then have "books c lo g3" using s(3) by (rule update_enemies_books)
  then have "books c lo g4" using s(4) by (rule update_boss_books)
  then have "books c lo (update_flame (update_bullets g4))"
    by (intro update_flame_books update_bullets_books)
  then have "books c lo g5" using s(5) by (rule draw_player_books)
  then have "books c lo g6" using s(6) by (rule draw_bullets_books)
  then have "books c lo g7" using s(7) by (rule draw_enemies_books)
  then have "books c lo g8" using s(8) by (rule draw_boss_books)
  then have "books c lo g9" using s(9) by (rule draw_flame_books)
  then show ?thesis unfolding s(10) by (rule end_of_frame_books)
qed

lemma bind_left: "bind (Inr x) f = f x"
  by (simp add: bind_def)

text \<open>A frame without QUIT event, from the state \<open>g1\<close> at the game-over check on.\<close>

lemma frame_after_prelude:
  assumes "handle_events (events inp) (max_fps g) = Some fps"
    and "prelude E inp (g\<lparr>max_fps := fps\<rparr>) = Inr g1"
  shows "frame E inp g =
     (if hp (player g1) \<le> 0
      then bind (ending E inp ''Game Over'' (255, 0, 0) 8 g1) (\<lambda>g. Inr (GameOver, g))
      else if gameFlag (show_timer E (if 60 \<le> trunc (suvivetime g1) then g1\<lparr>gameFlag := True\<rparr> else g1)) = True
           then bind (ending E inp ''Game Clear'' (0, 255, 0) 9
                  (show_timer E (if 60 \<le> trunc (suvivetime g1) then g1\<lparr>gameFlag := True\<rparr> else g1)))
                  (\<lambda>g. Inr (GameClear, g))
           else bind (play E inp
                  (show_timer E (if 60 \<le> trunc (suvivetime g1) then g1\<lparr>gameFlag := True\<rparr> else g1)))
                  (\<lambda>g. Inr (Playing, g)))"
  by (simp only: frame_def assms option.case bind_left Let_def)

lemma frame_books: "books c lo g \<Longrightarrow> frame E inp g = Inr r \<Longrightarrow> books c lo (snd r)"
proof -
  assume b: "books c lo g" and f: "frame E inp g = Inr r"
  show ?thesis
  proof (cases "handle_events (events inp) (max_fps g)")
    case None
    then show ?thesis using b f by (auto simp add: frame_def)
  next
    case (Some fps)
    have b0: "books c lo (g\<lparr>max_fps := fps\<rparr>)"
      by (rule books_cong [OF b]) simp_all
    from f Some obtain g1 where g1: "prelude E inp (g\<lparr>max_fps := fps\<rparr>) = Inr g1"
      by (auto simp add: frame_def bind_Inr)
    have b1: "books c lo g1" using b0 g1 by (rule prelude_books)
    let ?g2 = "show_timer E (if 60 \<le> trunc (suvivetime g1) then g1\<lparr>gameFlag := True\<rparr> else g1)"
    have b2: "books c lo ?g2"
      by (intro show_timer_books books_cong [OF b1]) simp_all
    note f' = f [unfolded frame_after_prelude [OF Some g1]]
    show ?thesis
    proof (cases "hp (player g1) \<le> 0")
      case True
      then obtain g' where "ending E inp ''Game Over'' (255, 0, 0) 8 g1 = Inr g'" "r = (GameOver, g')"
        using f' by (auto simp add: bind_Inr)
      then show ?thesis using ending_books [OF b1] by simp
    next
      case False
      show ?thesis
      proof (cases "gameFlag ?g2 = True")
        case True
        then obtain g' where "ending E inp ''Game Clear'' (0, 255, 0) 9 ?g2 = Inr g'" "r = (GameClear, g')"
          using f' False by (auto simp add: bind_Inr)
        then show ?thesis using ending_books [OF b2] by simp
      next
        case nf: False
        then obtain g' where "play E inp ?g2 = Inr g'" "r = (Playing, g')"
          using f' False by (auto simp add: bind_Inr)
        then show ?thesis using play_books [OF b2] by simp
      qed
    qed
  qed
qed

lemma main_loop_books: "books c lo g \<Longrightarrow> main_loop E inps g = Inr r \<Longrightarrow> books c lo (snd r)"
proof (induction inps arbitrary: g)
  case Nil
  then show ?case by auto
next
  case (Cons inp inps)
  from Cons.prems(2) obtain r1 where r1: "frame E inp g = Inr r1"
    by (auto split: sum.splits)
  have b1: "books c lo (snd r1)" using Cons.prems(1) r1 by (rule frame_books)
  show ?case
  proof (cases "fst r1 = Playing")
    case True
    then show ?thesis using Cons.IH [OF b1] Cons.prems(2) r1 by simp
  next
    case False
    then show ?thesis using Cons.prems(2) r1 b1 by simp
  qed
qed

subsection \<open>The phases of the game\<close>


















subsection \<open>Runs of the main loop\<close>

text \<open>The definitions that evaluate the start of the game and a frame on the example
  values.\<close>

lemmas init_eval = init_def Player_init_def move_imgs_def Character_init_def set_image_def
  get_rect_def set_center_def set_topleft_def env0_def Background_init_def add_def Score_rect_def
  img_def img0_def trunc_def upto.simps inp0_def game0_def

lemmas frame_eval = frame_def prelude_def difficulty_def spawn_enemy_def spawn_boss_def
  collide_flame_bullets_def collide_player_enemies_def collide_boss_bullets_def
  groupcollide_def sprites_def spritecollide_def draw_background_def Background_update_at_def
  Background_update_def Background_offset_def floordiv_def draw_def shift_sprites_def move_ip_def
  blit_def bind_def show_timer_def overlay_def play_def player_step_def Player_update_def
  Character_update_def delta_def Player_move_def shoot_def update_enemies_def update_boss_def
  update_bullets_def update_flame_def Bullets_update_def draw_player_def draw_bullets_def
  draw_enemies_def draw_boss_def draw_flame_def draw_score_def Score_update_def end_of_frame_def
  center_def centerx_def centery_def of_pair_def calc_orientation_def Let_def
  WIDTH_def HEIGHT_def ending_def change_img_def colliderect_def
  Bullet_update_at_def Bullet_update_def Bullet_hit_def give_damage_def damaged_def Character_kill_def
  kill_def Enemy_update_at_def Enemy_update_def calc_norm_def Rect_xy_def score_up_def
  is_Enemy_Base_def get_score_def Bullet_init_def Enemy_init_def Enemy_Base_init_def

lemma init_scoring: "init E = Inr g \<Longrightarrow> scoring_inv g \<and> score g = 0 \<and> killed_value g = 0"
  by (auto simp add: init_def Let_def Player_init_def scoring_inv_def killed_value_def dead_value_def
      is_Enemy_Base_def Character_init_def set_image_def split: option.splits)

text \<open>
  C6. The game that enters the loop satisfies the scoring invariant with score zero and
  nobody dead. From any game that satisfies the invariant, over any sequence of frames
  that the loop runs without raising, the invariant holds again, the score has not
  decreased, and the score has grown by exactly the value of the enemies and bosses that
  died meanwhile: the score value of each entity whose health a hit took from above zero
  to zero or below, and nothing else.
\<close>

theorem score_counts_kills:
  "(init E = Inr g \<longrightarrow> scoring_inv g \<and> score g = 0 \<and> killed_value g = 0) \<and>
   (scoring_inv g \<and> main_loop E inps g = Inr r \<longrightarrow>
      scoring_inv (snd r) \<and> score g \<le> score (snd r) \<and>
      score (snd r) - score g = killed_value (snd r) - killed_value g)"
proof -
  have run: "scoring_inv (snd r) \<and> score g \<le> score (snd r) \<and>
      score (snd r) - score g = killed_value (snd r) - killed_value g"
    if a: "scoring_inv g \<and> main_loop E inps g = Inr r"
  proof -
    have "books (score g - killed_value g) (score g) g"
      using a by (simp add: books_def)
    then have "books (score g - killed_value g) (score g) (snd r)"
      using a by (intro main_loop_books [where g = g and E = E and inps = inps]) simp_all
    then show ?thesis by (simp add: books_def)
  qed
  show ?thesis using init_scoring [of E g] run by blast
qed

lemma sqrt_6400: "sqrt 6400 = 80"
  by (rule real_sqrt_unique) simp_all

lemma duel0_run:
  "\<exists>g'. main_loop env0 [inp0] duel0 = Inr (Playing, g') \<and> score g' = 30 \<and>
        map hp (enemies g') = [0] \<and> map alive (enemies g') = [False]"
  by (simp add: duel0_def enemy2_def bullet0_def init_eval frame_eval sqrt_6400)

lemma duel0_start: "scoring_inv duel0 \<and> score duel0 = 0 \<and> killed_value duel0 = 0"
  by (simp add: duel0_def enemy2_def init_eval scoring_inv_def killed_value_def dead_value_def
      kill_value_def sound_target_def is_Enemy_Base_def get_score_def Enemy_init_def
      Enemy_Base_init_def Let_def)

text \<open>
  The start of the game, and one frame of the game in which the bullet reaches the enemy
  with ten points of health: the enemy dies and the score goes from 0 to 30.
\<close>

theorem score_counts_kills_witness:
  "score game0 = 0 \<and> killed_value game0 = 0 \<and> score duel0 = 0 \<and> killed_value duel0 = 0 \<and>
   score (snd (projr (main_loop env0 [inp0] duel0))) = 30 \<and>
   killed_value (snd (projr (main_loop env0 [inp0] duel0))) = 30 \<and>
   map hp (enemies (snd (projr (main_loop env0 [inp0] duel0)))) = [0]"
proof -
  obtain g' where g': "main_loop env0 [inp0] duel0 = Inr (Playing, g')" "score g' = 30"
    "map hp (enemies g') = [0]"
    using duel0_run by auto
  have "init env0 = Inr game0"
    by (simp add: game0_def init_def Let_def Player_init_def move_imgs_def)
  then show ?thesis
    using score_counts_kills [of env0 duel0 "[inp0]" "(Playing, g')"]
      score_counts_kills [of env0 game0 "[]" "(Playing, game0)"] duel0_start g'
    by simp
qed









lemma calc_orientation_same: "calc_orientation p p = Inl ZeroDivisionError"
  by (simp add: calc_orientation_def)

text \<open>
  The same in general: a shot with the camera on the player and the pointer at the
  centre of the screen raises. And the guard of the enemy's pursuit tests the distance of
  the centres while the direction is taken from the top-left corners: an enemy larger
  than the player whose corner is the player's passes the guard and raises.
\<close>

lemma shoot_at_own_position:
  assumes "attack_interval (player g) < clk g"
    and "center_pos (camera g) = of_pair (center (rect (player g)))"
    and "real_of_int (fst (mouse_pos inp)) = real_of_int (fst (screen_size (camera g))) / 2"
    and "real_of_int (snd (mouse_pos inp)) = real_of_int (snd (screen_size (camera g))) / 2"
  shows "shoot E inp g = Inl ZeroDivisionError"
  using assms by (simp add: shoot_def Let_def calc_orientation_def of_pair_def)

lemma big_enemy0_rect:
  "rect big_enemy0 = \<lparr>rect_x = - 24, rect_y = - 24, rect_w = 150, rect_h = 150\<rparr>"
  by (simp add: big_enemy0_def Enemy_init_def Enemy_Base_init_def Character_init_def set_image_def
      Let_def get_rect_def set_center_def env0_def)

lemma Enemy_update_guard_gap:
  "50 \<le> calc_norm (rect big_enemy0) (rect player0) \<and>
   Enemy_update (1 / 60) player0 big_enemy0 = Inl ZeroDivisionError"
proof -
  have "50 \<le> sqrt 5202" by (rule real_le_rsqrt) simp
  then have far: "50 \<le> calc_norm (rect big_enemy0) (rect player0)"
    by (simp add: calc_norm_def Let_def big_enemy0_rect player0_rect centerx_def centery_def)
  then have "\<not> calc_norm (rect (Character_update (1 / 60) big_enemy0)) (rect player0) < 50"
    by (simp add: rect_Character_update)
  then have "Enemy_update (1 / 60) player0 big_enemy0 = Inl ZeroDivisionError"
    by (simp add: Enemy_update_def Let_def rect_Character_update big_enemy0_rect player0_rect
        Rect_xy_def calc_orientation_same)
  then show ?thesis using far by simp
qed

text \<open>
  C5 fails on the code. The player's aim in \<^verbatim>\<open>main\<close> calls the orientation calculation
  without any test of the distance. From the start of the game, three frames of 300
  milliseconds with the pointer at the centre of the window: in the third frame the
  attack timer has passed the attack interval, the pointer is where the player is, and
  the division raises.
\<close>

theorem aim_at_own_position_raises:
  "main_loop env0 [aim0, aim0, aim0] game0 = Inl ZeroDivisionError"
  by (simp add: aim0_def init_eval frame_eval)

end
